theory Spec2Isabelle
  imports Complex_Main "HOL-Library.Multiset"
begin

section \<open>Result records of \<^verbatim>\<open>training.py\<close>\<close>

text \<open>
  \<^verbatim>\<open>EpochResult\<close> and \<^verbatim>\<open>ModelResult\<close> are the frozen dataclasses of
  \<^verbatim>\<open>src/medical_hgt/training.py\<close>. Timestamps are Python integers (the result of
  \<^verbatim>\<open>round(time.time())\<close>), so they are modelled as \<^typ>\<open>int\<close>; losses and
  accuracies are Python floats, idealised as \<^typ>\<open>real\<close>. The type of the saved
  parameter dictionary is left as a type parameter.
\<close>

record EpochResult =
  epoch_num :: int
  train_start_time :: int
  train_end_time :: int
  mean_train_loss :: real
  train_acc :: real
  val_acc :: real

record 'sd ModelResult =
  start_time :: int
  end_time :: int
  epoch_results :: "EpochResult list"
  state_dict :: 'sd
  test_acc :: real

definition get_total_train_time_sec :: "'sd ModelResult \<Rightarrow> int" where
  "get_total_train_time_sec self =
     sum_list (map (\<lambda>er. train_end_time er - train_start_time er) (epoch_results self))"

text \<open>Python's \<^verbatim>\<open>//\<close> on integers rounds towards minus infinity, as \<open>div\<close> on
  \<^typ>\<open>int\<close> does.\<close>

definition get_total_train_time_min :: "'sd ModelResult \<Rightarrow> int" where
  "get_total_train_time_min self = get_total_train_time_sec self div 60"

section \<open>Errors, tensors and batches\<close>

text \<open>Every exception the modelled code can raise is a value; a fallible computation
  returns \<open>py_error + 'a\<close> with \<open>Inl\<close> for the exception.\<close>

datatype py_error = IndexError | KeyError | RuntimeError | ZeroDivisionError | OverflowError

definition ebind :: "'e + 'a \<Rightarrow> ('a \<Rightarrow> 'e + 'b) \<Rightarrow> 'e + 'b" where
  "ebind m f = (case m of Inl e \<Rightarrow> Inl e | Inr v \<Rightarrow> f v)"

text \<open>
  The label and prediction tensors of the loops are zero- or one-dimensional:
  \<open>Scalar x\<close> is a 0-dim tensor, \<open>Vec xs\<close> a 1-dim tensor of \<open>length xs\<close> entries.
  The operations follow PyTorch: \<^verbatim>\<open>squeeze()\<close> drops a dimension of size one (so a
  one-entry vector becomes a scalar), \<^verbatim>\<open>view(1)\<close> needs exactly one entry,
  \<^verbatim>\<open>size(0)\<close> and indexing with an index tensor raise \<^verbatim>\<open>IndexError\<close> on a 0-dim
  tensor, and \<^verbatim>\<open>torch.cat\<close> raises \<^verbatim>\<open>RuntimeError\<close> on an empty list and on a
  0-dim member.
\<close>

datatype 'a tensor = Scalar 'a | Vec "'a list"

fun dim_of :: "'a tensor \<Rightarrow> nat" where
  "dim_of (Scalar x) = 0"
| "dim_of (Vec xs) = 1"

fun squeeze :: "'a tensor \<Rightarrow> 'a tensor" where
  "squeeze (Vec [x]) = Scalar x"
| "squeeze t = t"

fun view1 :: "'a tensor \<Rightarrow> py_error + 'a tensor" where
  "view1 (Scalar x) = Inr (Vec [x])"
| "view1 (Vec [x]) = Inr (Vec [x])"
| "view1 t = Inl RuntimeError"

fun size0 :: "'a tensor \<Rightarrow> py_error + nat" where
  "size0 (Scalar x) = Inl IndexError"
| "size0 (Vec xs) = Inr (length xs)"

fun index_by :: "'a tensor \<Rightarrow> nat list \<Rightarrow> py_error + 'a tensor" where
  "index_by (Scalar x) idx = Inl IndexError"
| "index_by (Vec xs) idx =
     (if list_all (\<lambda>i. i < length xs) idx then Inr (Vec (map (\<lambda>i. xs ! i) idx))
      else Inl IndexError)"

fun cat_rows :: "'a tensor list \<Rightarrow> py_error + 'a list" where
  "cat_rows [] = Inr []"
| "cat_rows (Scalar x # ts) = Inl RuntimeError"
| "cat_rows (Vec xs # ts) = ebind (cat_rows ts) (\<lambda>ys. Inr (xs @ ys))"

definition torch_cat :: "'a tensor list \<Rightarrow> py_error + 'a list" where
  "torch_cat ts = (if ts = [] then Inl RuntimeError else cat_rows ts)"

text \<open>\<^verbatim>\<open>if t.dim() == 0: t = t.view(1)\<close>\<close>

definition view1_if_scalar :: "'a tensor \<Rightarrow> py_error + 'a tensor" where
  "view1_if_scalar t = (if dim_of t = 0 then view1 t else Inr t)"

text \<open>
  A batch, as far as the loops read it: the supervised edges of the two edge types
  \<^verbatim>\<open>question_correct_answer\<close> and \<^verbatim>\<open>question_wrong_answer\<close> (the columns of
  \<^verbatim>\<open>edge_label_index\<close> as pairs, \<^verbatim>\<open>edge_label\<close> as a 1-dim tensor) and the
  \<^verbatim>\<open>node_uid\<close> of the question nodes.
\<close>

record batch =
  correct_edge_label :: "real list"
  correct_edge_label_index :: "(nat \<times> nat) list"
  wrong_edge_label :: "real list"
  wrong_edge_label_index :: "(nat \<times> nat) list"
  node_uid :: "int list"

section \<open>Negative sampler\<close>

text \<open>
  Lines 88--104 of \<^verbatim>\<open>train\<close> and 247--264 of \<^verbatim>\<open>evaluate\<close> (the same statements
  under different variable names). \<open>rp n\<close> is what this call of
  \<^verbatim>\<open>torch.randperm(n)\<close> returns. \<open>draw_neg_sample_indices\<close> is the code up to the
  slicing of the permutation, \<open>sample_negatives\<close> the whole block.
\<close>

definition num_neg_samples :: nat where
  "num_neg_samples = 2"

definition draw_neg_sample_indices ::
  "(nat \<Rightarrow> nat list) \<Rightarrow> batch \<Rightarrow> py_error + (real tensor \<times> real tensor \<times> nat list)" where
  "draw_neg_sample_indices rp b =
     ebind (view1_if_scalar (squeeze (Vec (correct_edge_label b)))) (\<lambda>pos_y.
       let neg_indices = wrong_edge_label_index b;
           neg_labels = squeeze (Vec (wrong_edge_label b))
       in ebind (size0 pos_y) (\<lambda>p.
            Inr (pos_y, neg_labels, take (num_neg_samples * p) (rp (length neg_indices)))))"

record sampled =
  pos_y :: "real tensor"
  neg_sample_indices :: "nat list"
  neg_pred_sampled :: "real tensor"
  neg_y :: "real tensor"

definition sample_negatives ::
  "(nat \<Rightarrow> nat list) \<Rightarrow> batch \<Rightarrow> real tensor \<Rightarrow> py_error + sampled" where
  "sample_negatives rp b neg_pred =
     ebind (draw_neg_sample_indices rp b) (\<lambda>(pos_y', neg_labels, idx).
     ebind (index_by neg_pred idx) (\<lambda>neg_pred'.
     ebind (index_by neg_labels idx) (\<lambda>neg_y0.
     ebind (view1_if_scalar neg_y0) (\<lambda>neg_y'.
       Inr \<lparr>pos_y = pos_y', neg_sample_indices = idx,
            neg_pred_sampled = neg_pred', neg_y = neg_y'\<rparr>))))"

section \<open>Collaborators and mutable state\<close>

text \<open>
  The precomputed LLM feedback of a question, the dictionary returned by
  \<^verbatim>\<open>llm.get_confidence\<close> and a row of the question-answering dataset. Python floats
  are idealised as \<^typ>\<open>real\<close>; \<^verbatim>\<open>is_correct_without_context\<close> and
  \<^verbatim>\<open>accuracy\<close> are the numbers Python's \<^verbatim>\<open>sum\<close> adds up.
\<close>

record llm_feedback =
  cop_confidence_without_context :: real
  is_correct_without_context :: real

record llm_response =
  confidence :: real
  cop_confidence :: real
  accuracy :: real

record qa_row =
  question :: string
  opa :: string
  opb :: string
  opc :: string
  opd :: string
  cop :: int

text \<open>What the loops do to the outside world, in the order it happens: the calls of
  \<^verbatim>\<open>find_most_relevant_nodes\<close> (question uid and \<open>k\<close>), the calls of
  \<^verbatim>\<open>llm.inference\<close> (the prompt) and the notice printed for a malformed response
  (with the batch index \<open>i\<close> the source prints).\<close>

datatype event =
    FindMostRelevantNodes int nat
  | LLMInference string
  | WrongResponseFormat nat

text \<open>
  The external functions, as parameters: the forward pass of the graph model on the
  current parameters and mode, the losses, the optimizer and scheduler, the random
  permutation returned by the \<open>k\<close>-th call of \<^verbatim>\<open>torch.randperm\<close>, the clock read by
  the \<open>k\<close>-th call of \<^verbatim>\<open>get_time\<close>, the metrics, the relevancy retrieval and the LLM.
\<close>

record ('v, 'z, 'o, 'e) collab =
  hgt_forward :: "(string \<times> 'v) list \<Rightarrow> bool \<Rightarrow> batch \<Rightarrow> real tensor \<times> real tensor \<times> 'z"
  compute_link_prediction_loss ::
    "real tensor \<Rightarrow> real tensor \<Rightarrow> real tensor \<Rightarrow> real tensor \<Rightarrow> real"
  compute_llm_relevancy_loss :: "batch \<Rightarrow> 'z \<Rightarrow> (int \<rightharpoonup> llm_feedback) \<Rightarrow> real"
  make_optimizer :: "real \<Rightarrow> 'o"
  backward_and_step :: "'o \<Rightarrow> (string \<times> 'v) list \<Rightarrow> batch \<Rightarrow> real \<Rightarrow> 'o \<times> 'v list"
  scheduler_step :: "'o \<Rightarrow> 'o"
  randperm :: "nat \<Rightarrow> nat \<Rightarrow> nat list"
  get_time :: "nat \<Rightarrow> int"
  roc_auc_score :: "real list \<Rightarrow> real list \<Rightarrow> real"
  precision :: "real list \<Rightarrow> real list \<Rightarrow> real"
  find_most_relevant_nodes ::
    "batch \<Rightarrow> 'z \<Rightarrow> nat \<Rightarrow> (string \<times> int) list \<Rightarrow> nat \<Rightarrow> string list"
  llm_inference :: "string \<Rightarrow> 'e"
  llm_get_confidence :: "char \<Rightarrow> 'e \<Rightarrow> llm_response"

text \<open>
  The mutable objects the loops share. The parameter tensors of the model live in a
  store (\<open>heap\<close>, addressed by position); the model object holds a reference to each
  under its name (\<open>param_refs\<close>) and its mode flag (\<open>training\<close>). \<open>opt_state\<close> is
  the optimizer with its scheduler, \<open>draws\<close> and \<open>ticks\<close> count the calls of
  \<^verbatim>\<open>torch.randperm\<close> and \<^verbatim>\<open>get_time\<close>, \<open>trace\<close> collects the events.
\<close>

record ('v, 'o) world =
  heap :: "'v list"
  param_refs :: "(string \<times> nat) list"
  training :: bool
  opt_state :: 'o
  draws :: nat
  ticks :: nat
  trace :: "event list"

definition named_parameters :: "('v, 'o) world \<Rightarrow> (string \<times> 'v) list" where
  "named_parameters w = map (\<lambda>(name, a). (name, heap w ! a)) (param_refs w)"

text \<open>A loop whose body may raise: the first exception ends it.\<close>

fun efold :: "('a \<Rightarrow> 's \<Rightarrow> 'e + 's) \<Rightarrow> 'a list \<Rightarrow> 's \<Rightarrow> 'e + 's" where
  "efold f [] s = Inr s"
| "efold f (x # xs) s = ebind (f x s) (efold f xs)"

section \<open>Evaluation loop of \<^verbatim>\<open>train.py\<close>\<close>

definition py_truediv :: "real \<Rightarrow> real \<Rightarrow> py_error + real" where
  "py_truediv a b = (if b = 0 then Inl ZeroDivisionError else Inr (a / b))"

text \<open>Python's \<^verbatim>\<open>round\<close> of a float to an integer: to the nearest, a tie to the even
  neighbour.\<close>

definition py_round :: "real \<Rightarrow> int" where
  "py_round x =
     (let f = \<lfloor>x\<rfloor>; d = x - of_int f
      in if d < 1 / 2 then f else if 1 / 2 < d then f + 1
         else if even f then f else f + 1)"

text \<open>
  Python's floats are IEEE 754 binary64 numbers; a finite float is modelled by the real
  number it denotes. \<open>round_to_double x\<close> is the float nearest to \<open>x\<close>, a tie going to the
  even significand: \<open>normalise\<close> scales \<open>\<bar>x\<bar>\<close> by powers of two until it has a significand
  of 53 bits (or the least exponent \<open>-1074\<close> of the subnormal numbers is reached), and the
  significand is rounded to an integer. The exponent is not bounded above: a result of
  magnitude \<open>2 ^ 1024\<close> or more stands for an infinity. The fuel of \<open>normalise\<close> is enough for
  every \<open>x\<close> below that magnitude.
\<close>

fun normalise :: "nat \<Rightarrow> real \<Rightarrow> int \<Rightarrow> real \<times> int" where
  "normalise 0 m e = (m, e)"
| "normalise (Suc k) m e =
     (if m < 2 ^ 52 \<and> - 1074 < e then normalise k (2 * m) (e - 1)
      else if 2 ^ 53 \<le> m then normalise k (m / 2) (e + 1)
      else (m, e))"

definition pow2 :: "int \<Rightarrow> real" where
  "pow2 e = (if 0 \<le> e then 2 ^ nat e else 1 / 2 ^ nat (- e))"

definition round_to_double :: "real \<Rightarrow> real" where
  "round_to_double x =
     (if x = 0 then 0
      else case normalise 1100 \<bar>x\<bar> 0 of (m, e) \<Rightarrow> sgn x * of_int (py_round m) * pow2 e)"

text \<open>The product of two floats, and the conversion of \<^verbatim>\<open>len(loader)\<close> to a float that
  \<^verbatim>\<open>frac * len(loader)\<close> makes first; both round to the nearest float. A number
  written for a float argument, as \<^verbatim>\<open>0.35\<close> for \<^verbatim>\<open>frac\<close>, is the float
  \<open>round_to_double (35 / 100)\<close>.\<close>

definition float_mul :: "real \<Rightarrow> real \<Rightarrow> real" where
  "float_mul x y = round_to_double (x * y)"

definition float_of_nat :: "nat \<Rightarrow> real" where
  "float_of_nat n = round_to_double (real n)"

text \<open>\<^verbatim>\<open>round(x)\<close> of a float that may be an infinity, which raises
  \<^verbatim>\<open>OverflowError\<close>.\<close>

definition py_round_float :: "real \<Rightarrow> py_error + int" where
  "py_round_float x = (if 2 ^ 1024 \<le> \<bar>x\<bar> then Inl OverflowError else Inr (py_round x))"

text \<open>Positional row access \<^verbatim>\<open>df.iloc[i]\<close>: a negative position counts from the end.\<close>

definition iloc :: "'a list \<Rightarrow> int \<Rightarrow> py_error + 'a" where
  "iloc rows i =
     (let n = int (length rows); j = (if i < 0 then n + i else i)
      in if 0 \<le> j \<and> j < n then Inr (rows ! nat j) else Inl IndexError)"

definition correct_answer_map :: "int \<rightharpoonup> char" where
  "correct_answer_map =
     [0 \<mapsto> CHR ''A'', 1 \<mapsto> CHR ''B'', 2 \<mapsto> CHR ''C'', 3 \<mapsto> CHR ''D'']"

fun join :: "string \<Rightarrow> string list \<Rightarrow> string" where
  "join sep [] = []"
| "join sep [x] = x"
| "join sep (x # y # ys) = x @ sep @ join sep (y # ys)"

definition make_prompt :: "string list \<Rightarrow> qa_row \<Rightarrow> string" where
  "make_prompt most_relevant_nodes dataset_row =
     ''Context: '' @ join '','' most_relevant_nodes @ ''. Question: '' @ question dataset_row
       @ '' A. '' @ opa dataset_row @ '' B. '' @ opb dataset_row
       @ '' C. '' @ opc dataset_row @ '' D. '' @ opd dataset_row"

record question_lists =
  vanilla_accuracy_list :: "real list"
  vanilla_confidence_list :: "real list"
  llm_aided_accuracy_list :: "real list"
  llm_aided_confidence_list :: "real list"

definition no_questions :: question_lists where
  "no_questions = \<lparr>vanilla_accuracy_list = [], vanilla_confidence_list = [],
                    llm_aided_accuracy_list = [], llm_aided_confidence_list = []\<rparr>"

definition accumulate :: "real \<Rightarrow> real \<Rightarrow> real \<Rightarrow> real \<Rightarrow> question_lists \<Rightarrow> question_lists" where
  "accumulate aided_conf aided_acc vanilla_conf vanilla_acc ql =
     ql\<lparr>llm_aided_confidence_list := llm_aided_confidence_list ql @ [aided_conf],
        llm_aided_accuracy_list := llm_aided_accuracy_list ql @ [aided_acc],
        vanilla_confidence_list := vanilla_confidence_list ql @ [vanilla_conf],
        vanilla_accuracy_list := vanilla_accuracy_list ql @ [vanilla_acc]\<rparr>"

text \<open>
  One iteration of \<^verbatim>\<open>for question_index in unseen_questions_indices\<close> (lines 280--322).
  The state is the four per-batch lists and the trace. \<^verbatim>\<open>continue\<close> returns the state;
  a failing subscript returns the exception.
\<close>

definition process_question ::
  "('v, 'z, 'o, 'e) collab \<Rightarrow> (int \<rightharpoonup> llm_feedback) \<Rightarrow> (int \<rightharpoonup> (string \<times> int) list) \<Rightarrow>
   qa_row list \<Rightarrow> nat \<Rightarrow> batch \<Rightarrow> 'z \<Rightarrow> nat \<Rightarrow> question_lists \<times> event list \<Rightarrow>
   py_error + question_lists \<times> event list" where
  "process_question c llm_feedbacks_dict question_to_subgraphs_mapping qa_dataset i b z_dict
     question_index st =
     (case st of (ql, tr) \<Rightarrow>
        if question_index < length (node_uid b) then
          let question_uid = node_uid b ! question_index in
          case llm_feedbacks_dict question_uid of
            None \<Rightarrow> Inr (ql, tr)
          | Some llm_feedback_without_context \<Rightarrow>
              if cop_confidence_without_context llm_feedback_without_context < 0.26 then
                (case question_to_subgraphs_mapping question_uid of
                   None \<Rightarrow> Inl KeyError
                 | Some subgraph_tuples \<Rightarrow>
                     let most_relevant_nodes =
                           find_most_relevant_nodes c b z_dict question_index subgraph_tuples 2;
                         tr1 = tr @ [FindMostRelevantNodes question_uid 2]
                     in ebind (iloc qa_dataset question_uid) (\<lambda>dataset_row.
                          let correct_answer = cop dataset_row;
                              prompt = make_prompt most_relevant_nodes dataset_row;
                              output_encodings = llm_inference c prompt;
                              tr2 = tr1 @ [LLMInference prompt]
                          in case correct_answer_map correct_answer of
                               None \<Rightarrow> Inl KeyError
                             | Some letter \<Rightarrow>
                                 let llm_response_dict =
                                       llm_get_confidence c letter output_encodings
                                 in if confidence llm_response_dict = - 1
                                    then Inr (ql, tr2 @ [WrongResponseFormat i])
                                    else Inr (accumulate
                                           (cop_confidence llm_response_dict)
                                           (accuracy llm_response_dict)
                                           (cop_confidence_without_context llm_feedback_without_context)
                                           (is_correct_without_context llm_feedback_without_context)
                                           ql, tr2)))
              else Inr (accumulate
                     (cop_confidence_without_context llm_feedback_without_context)
                     (is_correct_without_context llm_feedback_without_context)
                     (cop_confidence_without_context llm_feedback_without_context)
                     (is_correct_without_context llm_feedback_without_context)
                     ql, tr)
        else Inl IndexError)"

text \<open>\<^verbatim>\<open>sum(xs) / max(1, len(xs))\<close>\<close>

definition floored_average :: "real list \<Rightarrow> py_error + real" where
  "floored_average xs = py_truediv (sum_list xs) (real (max 1 (length xs)))"

text \<open>The four lists of tensors both loops of \<^verbatim>\<open>train.py\<close> accumulate, and the
  appends that store one batch's results.\<close>

record tensor_lists =
  pos_y_true_tensors :: "real tensor list"
  neg_y_true_tensors :: "real tensor list"
  pos_y_pred_tensors :: "real tensor list"
  neg_y_pred_tensors :: "real tensor list"

definition store_results ::
  "real tensor \<Rightarrow> real tensor \<Rightarrow> real tensor \<Rightarrow> real tensor \<Rightarrow>
   'a tensor_lists_scheme \<Rightarrow> 'a tensor_lists_scheme" where
  "store_results pos_pred neg_pred pos_true neg_true acc =
     acc\<lparr>pos_y_pred_tensors := pos_y_pred_tensors acc @ [pos_pred],
         neg_y_pred_tensors := neg_y_pred_tensors acc @ [neg_pred],
         pos_y_true_tensors := pos_y_true_tensors acc @ [pos_true],
         neg_y_true_tensors := neg_y_true_tensors acc @ [neg_true]\<rparr>"

record eval_acc = tensor_lists +
  average_llm_aided_confidence_list :: "real list"
  average_llm_aided_accuracy_list :: "real list"
  average_llm_vanilla_confidence_list :: "real list"
  average_llm_vanilla_accuracy_list :: "real list"

definition empty_eval_acc :: eval_acc where
  "empty_eval_acc =
     \<lparr>pos_y_true_tensors = [], neg_y_true_tensors = [], pos_y_pred_tensors = [],
      neg_y_pred_tensors = [], average_llm_aided_confidence_list = [],
      average_llm_aided_accuracy_list = [], average_llm_vanilla_confidence_list = [],
      average_llm_vanilla_accuracy_list = []\<rparr>"

text \<open>Lines 324--334: the batch averages and their conditional accumulation.\<close>

definition accumulate_batch_averages :: "question_lists \<Rightarrow> eval_acc \<Rightarrow> py_error + eval_acc" where
  "accumulate_batch_averages ql acc =
     ebind (floored_average (vanilla_confidence_list ql)) (\<lambda>batch_average_vanilla_confidence.
     ebind (floored_average (vanilla_accuracy_list ql)) (\<lambda>batch_average_vanilla_accuracy.
     ebind (floored_average (llm_aided_confidence_list ql)) (\<lambda>batch_average_context_confidence.
     ebind (floored_average (llm_aided_accuracy_list ql)) (\<lambda>batch_average_context_accuracy.
       if 0 < batch_average_context_confidence then
         Inr (acc\<lparr>average_llm_aided_confidence_list :=
                     average_llm_aided_confidence_list acc @ [batch_average_context_confidence],
                  average_llm_aided_accuracy_list :=
                     average_llm_aided_accuracy_list acc @ [batch_average_context_accuracy],
                  average_llm_vanilla_confidence_list :=
                     average_llm_vanilla_confidence_list acc @ [batch_average_vanilla_confidence],
                  average_llm_vanilla_accuracy_list :=
                     average_llm_vanilla_accuracy_list acc @ [batch_average_vanilla_accuracy]\<rparr>)
       else Inr acc))))"

text \<open>
  The body of the batch loop of \<^verbatim>\<open>evaluate\<close> (lines 238--334) for the batch with
  \<^verbatim>\<open>enumerate\<close> index \<open>i\<close>. \<^verbatim>\<open>edge_label_index[0]\<close> is a row of a two-dimensional
  tensor, hence one-dimensional: the question indices are the first components of the
  columns.
\<close>

definition eval_batch ::
  "('v, 'z, 'o, 'e) collab \<Rightarrow> (int \<rightharpoonup> llm_feedback) \<Rightarrow> (int \<rightharpoonup> (string \<times> int) list) \<Rightarrow>
   qa_row list \<Rightarrow> nat \<Rightarrow> batch \<Rightarrow> eval_acc \<times> ('v, 'o) world \<Rightarrow>
   py_error + eval_acc \<times> ('v, 'o) world" where
  "eval_batch c llm_feedbacks_dict question_to_subgraphs_mapping qa_dataset i b st =
     (case st of (acc, w) \<Rightarrow>
        case hgt_forward c (named_parameters w) (training w) b of
          (pos_pred, neg_pred, z_dict) \<Rightarrow>
            ebind (sample_negatives (randperm c (draws w)) b neg_pred) (\<lambda>s.
              let acc1 = store_results pos_pred (neg_pred_sampled s) (pos_y s) (neg_y s) acc;
                  unseen_questions_indices = map fst (correct_edge_label_index b)
              in ebind (efold (process_question c llm_feedbacks_dict
                                 question_to_subgraphs_mapping qa_dataset i b z_dict)
                          unseen_questions_indices (no_questions, trace w)) (\<lambda>(ql, tr).
                 ebind (accumulate_batch_averages ql acc1) (\<lambda>acc2.
                   Inr (acc2, w\<lparr>draws := draws w + 1, trace := tr\<rparr>)))))"

text \<open>
  \<^verbatim>\<open>for i, batch in enumerate(loader): ...; if batch_num >= num_batches: break\<close>
  with \<^verbatim>\<open>batch_num = i + 1\<close>: the test comes after the body.
\<close>

fun eval_loop ::
  "(nat \<Rightarrow> 'b \<Rightarrow> 's \<Rightarrow> py_error + 's) \<Rightarrow> int \<Rightarrow> nat \<Rightarrow> 'b list \<Rightarrow> 's \<Rightarrow> py_error + 's" where
  "eval_loop body num_batches i [] s = Inr s"
| "eval_loop body num_batches i (b # bs) s =
     ebind (body i b s) (\<lambda>s'.
       if num_batches \<le> int (i + 1) then Inr s' else eval_loop body num_batches (i + 1) bs s')"

record llm_acc_dict =
  vanilla_accuracy :: real
  context_accuracy :: real

text \<open>Lines 339--354 of \<^verbatim>\<open>evaluate\<close>: what follows the batch loop.\<close>

definition evaluate_results ::
  "eval_acc \<times> ('v, 'o) world \<Rightarrow>
   py_error + (real list \<times> real list \<times> llm_acc_dict) \<times> ('v, 'o) world" where
  "evaluate_results st =
     (case st of (acc, w1) \<Rightarrow>
        let w2 = w1\<lparr>training := True\<rparr> in
        ebind (torch_cat (pos_y_pred_tensors acc)) (\<lambda>pos_pred.
        ebind (torch_cat (neg_y_pred_tensors acc)) (\<lambda>neg_pred.
        ebind (torch_cat (pos_y_true_tensors acc)) (\<lambda>pos_true.
        ebind (torch_cat (neg_y_true_tensors acc)) (\<lambda>neg_true.
        ebind (floored_average (average_llm_vanilla_accuracy_list acc)) (\<lambda>va.
        ebind (floored_average (average_llm_aided_accuracy_list acc)) (\<lambda>ca.
          Inr ((pos_pred @ neg_pred, pos_true @ neg_true,
                \<lparr>vanilla_accuracy = va, context_accuracy = ca\<rparr>), w2))))))))"

text \<open>\<^verbatim>\<open>evaluate\<close> (lines 199--354); \<open>frac'\<close> is the number passed for \<^verbatim>\<open>frac\<close>,
  held as the float \<open>round_to_double frac'\<close>.\<close>

definition evaluate ::
  "('v, 'z, 'o, 'e) collab \<Rightarrow> (string \<rightharpoonup> batch list) \<Rightarrow> string \<Rightarrow> qa_row list \<Rightarrow>
   (int \<rightharpoonup> llm_feedback) \<Rightarrow> (int \<rightharpoonup> (string \<times> int) list) \<Rightarrow> real \<Rightarrow> ('v, 'o) world \<Rightarrow>
   py_error + (real list \<times> real list \<times> llm_acc_dict) \<times> ('v, 'o) world" where
  "evaluate c split_loaders split_name qa_dataset llm_feedbacks_dict
     question_to_subgraphs_mapping frac' w =
     (let w0 = w\<lparr>training := False\<rparr> in
      case split_loaders split_name of
        None \<Rightarrow> Inl KeyError
      | Some loader \<Rightarrow>
          ebind (py_round_float (float_mul (round_to_double frac') (float_of_nat (length loader))))
            (\<lambda>num_batches.
               ebind (eval_loop (eval_batch c llm_feedbacks_dict question_to_subgraphs_mapping
                                   qa_dataset) num_batches 0 loader (empty_eval_acc, w0))
                 evaluate_results))"

section \<open>Evaluation loop of \<^verbatim>\<open>training.py\<close>\<close>




section \<open>Training loop of \<^verbatim>\<open>train.py\<close>\<close>

text \<open>
  Modelled from the spec: \<^verbatim>\<open>EpochResult\<close> and \<^verbatim>\<open>ModelResult\<close> of
  \<^verbatim>\<open>src/medical_hgt/ml_utils.py\<close>, which \<^verbatim>\<open>train.py\<close> imports and which is not among
  the sources. The fields are those of the data model of the specification, under the
  keyword names \<^verbatim>\<open>train\<close> constructs an \<^verbatim>\<open>EpochResult\<close> with (prefixed where
  \<^verbatim>\<open>training.py\<close> has a field of the same name). The saved \<^verbatim>\<open>state_dict\<close> maps each
  parameter name to a reference into the store.
\<close>

record hgt_epoch_result =
  hgt_epoch_num :: int
  hgt_train_start_time :: int
  hgt_train_end_time :: int
  hgt_mean_train_loss :: real
  train_roc_aoc :: real
  train_precision :: real
  val_roc_aoc :: real
  val_precision :: real
  llm_results :: llm_acc_dict

record hgt_model_result =
  hgt_start_time :: int
  hgt_end_time :: int
  hgt_epoch_results :: "hgt_epoch_result list"
  hgt_state_dict :: "(string \<times> nat) list"
  test_roc_auc :: real
  test_precision :: real
  test_llm_acc_dict :: llm_acc_dict

text \<open>\<^verbatim>\<open>tensor.long()\<close> truncates towards zero.\<close>

definition trunc :: "real \<Rightarrow> real" where
  "trunc x = (if 0 \<le> x then of_int \<lfloor>x\<rfloor> else of_int \<lceil>x\<rceil>)"

fun long :: "real tensor \<Rightarrow> real tensor" where
  "long (Scalar x) = Scalar (trunc x)"
| "long (Vec xs) = Vec (map trunc xs)"

text \<open>\<^verbatim>\<open>round(np.mean(xs), 4)\<close>. The mean is only reached with a non-empty list:
  \<^verbatim>\<open>torch.cat\<close> of the empty lists of an epoch without batches raises before.\<close>

definition np_mean :: "real list \<Rightarrow> real" where
  "np_mean xs = sum_list xs / real (length xs)"

definition round_ndigits :: "real \<Rightarrow> nat \<Rightarrow> real" where
  "round_ndigits x n = of_int (py_round (x * 10 ^ n)) / 10 ^ n"

text \<open>\<^verbatim>\<open>opt.step()\<close> updates the parameter tensors in place: the new values are
  written at the addresses the model refers to.\<close>

definition write_params :: "nat list \<Rightarrow> 'v list \<Rightarrow> 'v list \<Rightarrow> 'v list" where
  "write_params addrs vals h = fold (\<lambda>(a, v) h'. h'[a := v]) (zip addrs vals) h"

text \<open>\<^verbatim>\<open>medical_hgt.state_dict()\<close> refers to the parameter tensors themselves;
  \<^verbatim>\<open>copy.deepcopy\<close> allocates a new tensor for each entry and copies the value.\<close>

definition state_dict_of :: "('v, 'o) world \<Rightarrow> (string \<times> nat) list" where
  "state_dict_of w = param_refs w"

definition deepcopy :: "(string \<times> nat) list \<Rightarrow> 'v list \<Rightarrow> (string \<times> nat) list \<times> 'v list" where
  "deepcopy sd h =
     (zip (map fst sd) [length h ..< length h + length sd], h @ map (\<lambda>(name, a). h ! a) sd)"

definition deref :: "'v list \<Rightarrow> (string \<times> nat) list \<Rightarrow> (string \<times> 'v) list" where
  "deref h sd = map (\<lambda>(name, a). (name, h ! a)) sd"

record epoch_acc = tensor_lists +
  train_losses :: "real list"

definition empty_epoch_acc :: epoch_acc where
  "empty_epoch_acc =
     \<lparr>pos_y_true_tensors = [], neg_y_true_tensors = [], pos_y_pred_tensors = [],
      neg_y_pred_tensors = [], train_losses = []\<rparr>"

text \<open>Line 66 and line 111.\<close>

definition llm_relevancy_loss_weight :: "real \<Rightarrow> real" where
  "llm_relevancy_loss_weight link_prediction_loss_weight = 1 - link_prediction_loss_weight"

definition total_loss :: "real \<Rightarrow> real \<Rightarrow> real \<Rightarrow> real \<Rightarrow> real" where
  "total_loss link_prediction_loss_weight llm_relevancy_loss_weight' link_prediction_loss
     llm_relevancy_loss =
     link_prediction_loss_weight * link_prediction_loss
       + llm_relevancy_loss_weight' * llm_relevancy_loss"

text \<open>The body of \<^verbatim>\<open>for batch in tqdm(train_loader)\<close> (lines 81--123).\<close>

definition train_batch ::
  "('v, 'z, 'o, 'e) collab \<Rightarrow> (int \<rightharpoonup> llm_feedback) \<Rightarrow> real \<Rightarrow> real \<Rightarrow> batch \<Rightarrow>
   epoch_acc \<times> ('v, 'o) world \<Rightarrow> py_error + epoch_acc \<times> ('v, 'o) world" where
  "train_batch c train_llm_feedbacks_dict link_prediction_loss_weight llm_relevancy_loss_weight'
     b st =
     (case st of (acc, w) \<Rightarrow>
        case hgt_forward c (named_parameters w) (training w) b of
          (pos_train_pred, neg_train_pred0, z_dict) \<Rightarrow>
            ebind (sample_negatives (randperm c (draws w)) b neg_train_pred0) (\<lambda>s.
              let link_prediction_loss =
                    compute_link_prediction_loss c pos_train_pred (neg_pred_sampled s)
                      (pos_y s) (neg_y s);
                  llm_relevancy_loss =
                    compute_llm_relevancy_loss c b z_dict train_llm_feedbacks_dict;
                  loss = total_loss link_prediction_loss_weight llm_relevancy_loss_weight'
                           link_prediction_loss llm_relevancy_loss
              in case backward_and_step c (opt_state w) (named_parameters w) b loss of
                   (opt', vals) \<Rightarrow>
                     Inr ((store_results pos_train_pred (neg_pred_sampled s)
                             (long (pos_y s)) (long (neg_y s)) acc)
                            \<lparr>train_losses := train_losses acc @ [loss]\<rparr>,
                          w\<lparr>heap := write_params (map snd (param_refs w)) vals (heap w),
                            opt_state := opt', draws := draws w + 1\<rparr>)))"

text \<open>One iteration of \<^verbatim>\<open>for epoch_num in range(1, num_epochs + 1)\<close> (lines 71--177).
  The state is the run's \<^verbatim>\<open>epoch_results\<close> and the world.\<close>

definition train_epoch ::
  "('v, 'z, 'o, 'e) collab \<Rightarrow> (string \<rightharpoonup> batch list) \<Rightarrow> batch list \<Rightarrow> qa_row list \<Rightarrow>
   (int \<rightharpoonup> llm_feedback) \<Rightarrow> (int \<rightharpoonup> llm_feedback) \<Rightarrow> (int \<rightharpoonup> (string \<times> int) list) \<Rightarrow>
   real \<Rightarrow> real \<Rightarrow> int \<Rightarrow> hgt_epoch_result list \<times> ('v, 'o) world \<Rightarrow>
   py_error + hgt_epoch_result list \<times> ('v, 'o) world" where
  "train_epoch c split_loaders train_loader eval_qa_dataset train_llm_feedbacks_dict
     val_llm_feedbacks_dict question_to_subgraphs_mapping link_prediction_loss_weight
     llm_relevancy_loss_weight' epoch_num' st =
     (case st of (epoch_results', w) \<Rightarrow>
        let train_start_time' = get_time c (ticks w);
            w1 = w\<lparr>ticks := ticks w + 1\<rparr>
        in ebind (efold (train_batch c train_llm_feedbacks_dict link_prediction_loss_weight
                           llm_relevancy_loss_weight') train_loader (empty_epoch_acc, w1))
             (\<lambda>(acc, w2).
                let train_end_time' = get_time c (ticks w2);
                    w3 = w2\<lparr>ticks := ticks w2 + 1\<rparr>
                in ebind (torch_cat (pos_y_pred_tensors acc)) (\<lambda>pos_pred.
                   ebind (torch_cat (neg_y_pred_tensors acc)) (\<lambda>neg_pred.
                   ebind (torch_cat (pos_y_true_tensors acc)) (\<lambda>pos_true.
                   ebind (torch_cat (neg_y_true_tensors acc)) (\<lambda>neg_true.
                     let pred = pos_pred @ neg_pred;
                         true = pos_true @ neg_true;
                         train_roc_auc = roc_auc_score c true pred;
                         train_precision' = precision c pred true
                     in ebind (evaluate c split_loaders ''val'' eval_qa_dataset
                                 val_llm_feedbacks_dict question_to_subgraphs_mapping 1 w3)
                          (\<lambda>((val_pred, val_true, val_llm_acc_dict), w4).
                             let epoch_result =
                                   \<lparr>hgt_epoch_num = epoch_num',
                                    hgt_train_start_time = train_start_time',
                                    hgt_train_end_time = train_end_time',
                                    hgt_mean_train_loss =
                                      round_ndigits (np_mean (train_losses acc)) 4,
                                    train_roc_aoc = train_roc_auc,
                                    train_precision = train_precision',
                                    val_roc_aoc = roc_auc_score c val_true val_pred,
                                    val_precision = precision c val_pred val_true,
                                    llm_results = val_llm_acc_dict\<rparr>
                             in Inr (epoch_results' @ [epoch_result],
                                     w4\<lparr>opt_state := scheduler_step c (opt_state w4)\<rparr>))))))))"

text \<open>\<^verbatim>\<open>train\<close> (lines 50--196). The arguments \<^verbatim>\<open>llm\<close>, \<^verbatim>\<open>medical_hgt\<close>,
  \<^verbatim>\<open>prime_kg\<close> and \<^verbatim>\<open>device\<close> are in the collaborators and the world;
  \<^verbatim>\<open>torch.save\<close> and the progress output are left out.\<close>

definition train ::
  "('v, 'z, 'o, 'e) collab \<Rightarrow> (string \<rightharpoonup> batch list) \<Rightarrow> (string \<rightharpoonup> qa_row list) \<Rightarrow>
   (int \<rightharpoonup> llm_feedback) \<Rightarrow> (int \<rightharpoonup> llm_feedback) \<Rightarrow> (int \<rightharpoonup> (string \<times> int) list) \<Rightarrow>
   int \<Rightarrow> real \<Rightarrow> real \<Rightarrow> ('v, 'o) world \<Rightarrow> py_error + hgt_model_result \<times> ('v, 'o) world" where
  "train c split_loaders qa_dataset train_llm_feedbacks_dict val_llm_feedbacks_dict
     question_to_subgraphs_mapping num_epochs lr link_prediction_loss_weight w =
     (let w0 = w\<lparr>training := True, opt_state := make_optimizer c lr\<rparr> in
      case qa_dataset ''validation'' of
        None \<Rightarrow> Inl KeyError
      | Some eval_qa_dataset \<Rightarrow>
          let start_time' = get_time c (ticks w0);
              w1 = w0\<lparr>ticks := ticks w0 + 1\<rparr>
          in case split_loaders ''train'' of
               None \<Rightarrow> Inl KeyError
             | Some train_loader \<Rightarrow>
                 let llm_relevancy_loss_weight' =
                       llm_relevancy_loss_weight link_prediction_loss_weight in
                 ebind (efold (train_epoch c split_loaders train_loader eval_qa_dataset
                                 train_llm_feedbacks_dict val_llm_feedbacks_dict
                                 question_to_subgraphs_mapping link_prediction_loss_weight
                                 llm_relevancy_loss_weight')
                          [1 .. num_epochs] ([], w1))
                   (\<lambda>(epoch_results', w2).
                      case deepcopy (state_dict_of w2) (heap w2) of
                        (state_dict', h) \<Rightarrow>
                          let w3 = w2\<lparr>heap := h\<rparr> in
                          ebind (evaluate c split_loaders ''test'' eval_qa_dataset
                                   val_llm_feedbacks_dict question_to_subgraphs_mapping 1 w3)
                            (\<lambda>((test_pred, test_true, test_llm_acc_dict'), w4).
                               let test_roc_auc' = roc_auc_score c test_true test_pred;
                                   test_precision' = precision c test_pred test_true;
                                   w5 = w4\<lparr>training := False\<rparr>;
                                   end_time' = get_time c (ticks w5);
                                   w6 = w5\<lparr>ticks := ticks w5 + 1\<rparr>
                               in Inr (\<lparr>hgt_start_time = start_time',
                                        hgt_end_time = end_time',
                                        hgt_epoch_results = epoch_results',
                                        hgt_state_dict = state_dict',
                                        test_roc_auc = test_roc_auc',
                                        test_precision = test_precision',
                                        test_llm_acc_dict = test_llm_acc_dict'\<rparr>, w6))))"

section \<open>Example data\<close>

text \<open>A batch with one question (uid 0), its correct answer and its three wrong answers;
  a batch with two questions; a model for \<^verbatim>\<open>evaluate_model\<close>; collaborators, a world with two parameter tensors and a dataset row, used where a theorem is
  applied to a concrete input.\<close>

definition ex_batch :: batch where
  "ex_batch = \<lparr>correct_edge_label = [1], correct_edge_label_index = [(0, 0)],
               wrong_edge_label = [0, 0, 0],
               wrong_edge_label_index = [(0, 1), (0, 2), (0, 3)], node_uid = [0]\<rparr>"



definition ex_collab :: "(real, unit, nat, string) collab" where
  "ex_collab =
     \<lparr>hgt_forward = (\<lambda>ps m b. (Vec (map (\<lambda>_. 9 / 10) (correct_edge_label b)),
                               Vec (map (\<lambda>j. real j / 10) [0..<length (wrong_edge_label b)]), ())),
      compute_link_prediction_loss = (\<lambda>pp np py ny. 1),
      compute_llm_relevancy_loss = (\<lambda>b z f. 2),
      make_optimizer = (\<lambda>lr. 0),
      backward_and_step = (\<lambda>opt ps b l. (opt, map (\<lambda>(n, v). v + 1) ps)),
      scheduler_step = Suc,
      randperm = (\<lambda>k n. rev [0..<n]),
      get_time = (\<lambda>k. 100 + 10 * int k),
      roc_auc_score = (\<lambda>t p. 1 / 2),
      precision = (\<lambda>p t. 1 / 2),
      find_most_relevant_nodes = (\<lambda>b z q sg k. take k (map fst sg)),
      llm_inference = (\<lambda>p. p),
      llm_get_confidence = (\<lambda>l e. \<lparr>confidence = 4 / 5, cop_confidence = 2 / 5, accuracy = 1\<rparr>)\<rparr>"

definition ex_world :: "(real, nat) world" where
  "ex_world = \<lparr>heap = [1, 2], param_refs = [(''w'', 0), (''b'', 1)], training = True,
               opt_state = 0, draws = 0, ticks = 0, trace = []\<rparr>"

definition ex_row :: qa_row where
  "ex_row = \<lparr>question = ''Q?'', opa = ''1'', opb = ''2'', opc = ''3'', opd = ''4'', cop = 2\<rparr>"

definition ex_feedback_low :: llm_feedback where
  "ex_feedback_low = \<lparr>cop_confidence_without_context = 1 / 10, is_correct_without_context = 0\<rparr>"

definition ex_feedback_high :: llm_feedback where
  "ex_feedback_high = \<lparr>cop_confidence_without_context = 3 / 10, is_correct_without_context = 1\<rparr>"

definition ex_subgraphs :: "int \<rightharpoonup> (string \<times> int) list" where
  "ex_subgraphs = [0 \<mapsto> [(''drug'', 5), (''gene'', 6), (''x'', 7)]]"

definition ex_collab_malformed :: "(real, unit, nat, string) collab" where
  "ex_collab_malformed =
     ex_collab\<lparr>llm_get_confidence :=
                 (\<lambda>l e. \<lparr>confidence = - 1, cop_confidence = 0, accuracy = 0\<rparr>)\<rparr>"

text \<open>The three splits with one batch each, and the result and the world of the training
  run of one epoch on them, with validation feedback of confidence 0.3 for the question.\<close>

definition ex_split_loaders :: "string \<rightharpoonup> batch list" where
  "ex_split_loaders = [''train'' \<mapsto> [ex_batch], ''val'' \<mapsto> [ex_batch], ''test'' \<mapsto> [ex_batch]]"

definition ex_model_result :: hgt_model_result where
  "ex_model_result =
     \<lparr>hgt_start_time = 100, hgt_end_time = 130,
      hgt_epoch_results =
        [\<lparr>hgt_epoch_num = 1, hgt_train_start_time = 110, hgt_train_end_time = 120,
          hgt_mean_train_loss = 17 / 10, train_roc_aoc = 1 / 2, train_precision = 1 / 2,
          val_roc_aoc = 1 / 2, val_precision = 1 / 2,
          llm_results = \<lparr>vanilla_accuracy = 1, context_accuracy = 1\<rparr>\<rparr>],
      hgt_state_dict = [(''w'', 2), (''b'', 3)], test_roc_auc = 1 / 2, test_precision = 1 / 2,
      test_llm_acc_dict = \<lparr>vanilla_accuracy = 1, context_accuracy = 1\<rparr>\<rparr>"

definition ex_trained_world :: "(real, nat) world" where
  "ex_trained_world =
     \<lparr>heap = [2, 3, 2, 3], param_refs = [(''w'', 0), (''b'', 1)], training = False,
      opt_state = 1, draws = 3, ticks = 4, trace = []\<rparr>"

section \<open>Total training time\<close>

text \<open>
  Claim C7. For every \<^verbatim>\<open>ModelResult\<close>, \<^verbatim>\<open>get_total_train_time_min()\<close> is the sum over
  its epoch results of \<^verbatim>\<open>train_end_time - train_start_time\<close>, integer-divided by 60;
  for the two epochs (start 100, end 160) and (start 200, end 245) the result is
  \<^verbatim>\<open>(60 + 45) // 60 = 1\<close>.
\<close>

theorem total_train_time_min_sum:
  "get_total_train_time_min mr =
     (\<Sum>er \<leftarrow> epoch_results mr. train_end_time er - train_start_time er) div 60
   \<and> get_total_train_time_min
       \<lparr>start_time = s, end_time = e,
        epoch_results =
          [\<lparr>epoch_num = 1, train_start_time = 100, train_end_time = 160,
            mean_train_loss = l1, train_acc = a1, val_acc = v1\<rparr>,
           \<lparr>epoch_num = 2, train_start_time = 200, train_end_time = 245,
            mean_train_loss = l2, train_acc = a2, val_acc = v2\<rparr>],
        state_dict = sd, test_acc = t\<rparr> = (60 + 45) div 60
   \<and> ((60 + 45) div 60 :: int) = 1"
  by (simp add: get_total_train_time_min_def get_total_train_time_sec_def)

section \<open>Basic facts\<close>

lemma ebind_Inl [simp]: "ebind (Inl e) f = Inl e" by (simp add: ebind_def)
lemma ebind_Inr [simp]: "ebind (Inr v) f = f v" by (simp add: ebind_def)
lemma ebind_eq_Inr: "ebind m f = Inr y \<longleftrightarrow> (\<exists>v. m = Inr v \<and> f v = Inr y)"
  by (cases m) simp_all

lemma normalise_unfold:
  "0 < k \<Longrightarrow>
   normalise k m e =
     (if m < 2 ^ 52 \<and> - 1074 < e then normalise (k - 1) (2 * m) (e - 1)
      else if 2 ^ 53 \<le> m then normalise (k - 1) (m / 2) (e + 1)
      else (m, e))"
  by (cases k) simp_all

lemma float_of_nat_examples:
  "float_of_nat (Suc 0) = 1" "float_of_nat (Suc (Suc (Suc 0))) = 3"
  by (simp_all add: float_of_nat_def round_to_double_def normalise_unfold py_round_def pow2_def)

lemma float_mul_examples:
  "float_mul (round_to_double 1) 1 = 1" "float_mul (round_to_double (1 / 4)) 1 = 1 / 4"
  "float_mul (round_to_double 2) 1 = 2" "float_mul (round_to_double (1 / 2)) 3 = 3 / 2"
  by (simp_all add: float_mul_def round_to_double_def normalise_unfold py_round_def pow2_def)

lemma py_round_float_error: "py_round_float x = Inl e \<Longrightarrow> e = OverflowError"
  by (simp add: py_round_float_def split: if_splits)

lemma positive_labels_1d: "view1_if_scalar (squeeze (Vec xs)) = Inr (Vec xs)"
  by (cases "(Vec xs)" rule: squeeze.cases) (simp_all add: view1_if_scalar_def)

lemma draw_neg_sample_indices_eq:
  "draw_neg_sample_indices rp b =
     Inr (Vec (correct_edge_label b), squeeze (Vec (wrong_edge_label b)),
          take (2 * length (correct_edge_label b)) (rp (length (wrong_edge_label_index b))))"
  by (simp add: draw_neg_sample_indices_def num_neg_samples_def Let_def positive_labels_1d)

lemma take_permutation:
  assumes "mset p = mset [0..<n]"
  shows "distinct (take k p)" and "length (take k p) = min k n" and "set (take k p) \<subseteq> {..<n}"
proof -
  from assms have d: "distinct p" using mset_eq_imp_distinct_iff distinct_upt by blast
  from assms have l: "length p = n" using mset_eq_length by fastforce
  from assms have s: "set p = {..<n}" using mset_eq_setD by fastforce
  show "distinct (take k p)" using d by simp
  show "length (take k p) = min k n" using l by simp
  show "set (take k p) \<subseteq> {..<n}" using s set_take_subset by fast
qed

lemma index_by_eq_Inr:
  "index_by t idx = Inr r \<longleftrightarrow>
     (\<exists>xs. t = Vec xs \<and> (\<forall>i\<in>set idx. i < length xs) \<and> r = Vec (map (\<lambda>i. xs ! i) idx))"
  by (cases t) (auto simp: list_all_iff)

lemma squeeze_eq_Vec: "squeeze (Vec xs) = Vec ys \<longleftrightarrow> ys = xs \<and> length xs \<noteq> 1"
  by (cases "(Vec xs)" rule: squeeze.cases) auto

lemma sample_negatives_Inr:
  assumes "sample_negatives rp b neg_pred = Inr s"
  shows "pos_y s = Vec (correct_edge_label b)"
    and "neg_sample_indices s =
           take (2 * length (correct_edge_label b)) (rp (length (wrong_edge_label_index b)))"
    and "\<exists>preds. neg_pred = Vec preds \<and> (\<forall>i\<in>set (neg_sample_indices s). i < length preds) \<and>
           neg_pred_sampled s = Vec (map (\<lambda>i. preds ! i) (neg_sample_indices s))"
    and "neg_y s = Vec (map (\<lambda>i. wrong_edge_label b ! i) (neg_sample_indices s))"
    and "\<forall>i\<in>set (neg_sample_indices s). i < length (wrong_edge_label b)"
    and "length (wrong_edge_label b) \<noteq> 1"
  using assms
  by (auto simp: sample_negatives_def draw_neg_sample_indices_eq ebind_eq_Inr index_by_eq_Inr
        squeeze_eq_Vec view1_if_scalar_def)

lemma sample_negatives_single_negative:
  assumes "length (wrong_edge_label b) = 1"
  shows "sample_negatives rp b neg_pred = Inl IndexError"
proof -
  from assms obtain l where l: "wrong_edge_label b = [l]"
    by (cases "wrong_edge_label b") auto
  show ?thesis
    by (cases "index_by neg_pred (take (2 * length (correct_edge_label b)) (rp (length (wrong_edge_label_index b))))")
       (simp_all add: sample_negatives_def draw_neg_sample_indices_eq l, cases neg_pred, simp_all split: if_splits)
qed

lemma sample_negatives_total:
  assumes "mset (rp (length (wrong_edge_label_index b))) = mset [0..<length (wrong_edge_label_index b)]"
    and "length (wrong_edge_label b) = length (wrong_edge_label_index b)"
    and "length preds = length (wrong_edge_label_index b)"
    and "length (wrong_edge_label b) \<noteq> 1"
  shows "\<exists>s. sample_negatives rp b (Vec preds) = Inr s"
proof -
  let ?idx = "take (2 * length (correct_edge_label b)) (rp (length (wrong_edge_label_index b)))"
  have sub: "set ?idx \<subseteq> {..<length (wrong_edge_label_index b)}"
    using take_permutation(3)[OF assms(1)] .
  have sq: "squeeze (Vec (wrong_edge_label b)) = Vec (wrong_edge_label b)"
    using assms(4) by (simp add: squeeze_eq_Vec)
  have a: "list_all (\<lambda>i. i < length preds) ?idx" "list_all (\<lambda>i. i < length (wrong_edge_label b)) ?idx"
    using sub assms(2,3) by (auto simp: list_all_iff)
  show ?thesis
    using a by (simp add: sample_negatives_def draw_neg_sample_indices_eq sq view1_if_scalar_def)
qed

section \<open>Negative sampler: sampling without replacement\<close>

text \<open>
  Claim C1. For every batch, the negative sampler draws \<open>min (2 * P) N_neg\<close> indices
  without replacement from the \<open>N_neg\<close> negative edges, as the random permutation of
  \<open>[0..<N_neg]\<close> truncated to length \<open>2 * P\<close>, where \<open>P\<close> is the number of positive
  examples of the batch; the sampled indices are pairwise distinct; and the negative
  predictions and labels the sampler returns are exactly those at the sampled positions.
  The permutation is whatever \<^verbatim>\<open>torch.randperm\<close> returns: any permutation of
  \<open>[0..<N_neg]\<close>.
\<close>

theorem negative_sampler_without_replacement:
  assumes "mset (rp (length (wrong_edge_label_index b))) =
           mset [0..<length (wrong_edge_label_index b)]"
  shows "\<exists>pos_y' neg_labels idx.
           draw_neg_sample_indices rp b = Inr (pos_y', neg_labels, idx)
         \<and> idx = take (2 * length (correct_edge_label b)) (rp (length (wrong_edge_label_index b)))
         \<and> length idx = min (2 * length (correct_edge_label b)) (length (wrong_edge_label_index b))
         \<and> distinct idx
         \<and> set idx \<subseteq> {..<length (wrong_edge_label_index b)}
         \<and> (\<forall>s. sample_negatives rp b neg_pred = Inr s \<longrightarrow>
                neg_sample_indices s = idx
              \<and> (\<exists>preds. neg_pred = Vec preds \<and>
                    neg_pred_sampled s = Vec (map (\<lambda>i. preds ! i) idx))
              \<and> neg_y s = Vec (map (\<lambda>i. wrong_edge_label b ! i) idx))"
proof -
  let ?idx = "take (2 * length (correct_edge_label b)) (rp (length (wrong_edge_label_index b)))"
  have "\<forall>s. sample_negatives rp b neg_pred = Inr s \<longrightarrow>
                neg_sample_indices s = ?idx
              \<and> (\<exists>preds. neg_pred = Vec preds \<and>
                    neg_pred_sampled s = Vec (map (\<lambda>i. preds ! i) ?idx))
              \<and> neg_y s = Vec (map (\<lambda>i. wrong_edge_label b ! i) ?idx)"
    using sample_negatives_Inr(2,3,4) by metis
  then show ?thesis
    using take_permutation[OF assms, of "2 * length (correct_edge_label b)"]
    by (simp add: draw_neg_sample_indices_eq)
qed

theorem negative_sampler_without_replacement_witness:
  "mset (rev [0..<length (wrong_edge_label_index ex_batch)]) =
     mset [0..<length (wrong_edge_label_index ex_batch)]
   \<and> sample_negatives (\<lambda>n. rev [0..<n]) ex_batch (Vec [1 / 10, 1 / 5, 3 / 10]) =
       Inr \<lparr>pos_y = Vec [1], neg_sample_indices = [2, 1],
            neg_pred_sampled = Vec [3 / 10, 1 / 5], neg_y = Vec [0, 0]\<rparr>
   \<and> distinct [2, 1 :: nat] \<and> length [2, 1 :: nat] = min (2 * 1) 3"
proof -
  have h: "mset (rev [0..<length (wrong_edge_label_index ex_batch)]) =
           mset [0..<length (wrong_edge_label_index ex_batch)]"
    by simp
  have e: "sample_negatives (\<lambda>n. rev [0..<n]) ex_batch (Vec [1 / 10, 1 / 5, 3 / 10]) =
       Inr \<lparr>pos_y = Vec [1], neg_sample_indices = [2, 1],
            neg_pred_sampled = Vec [3 / 10, 1 / 5], neg_y = Vec [0, 0]\<rparr>"
    by (simp add: sample_negatives_def draw_neg_sample_indices_eq ex_batch_def
          view1_if_scalar_def upt_rec)
  from negative_sampler_without_replacement
         [of "\<lambda>n. rev [0..<n]" ex_batch "Vec [1 / 10, 1 / 5, 3 / 10]", OF h] e
  show ?thesis by (simp add: ex_batch_def)
qed


section \<open>Scalar label tensors\<close>

text \<open>
  Claim C4. In both loops a scalar positive label tensor and a scalar sampled negative
  label tensor are reshaped to length one before use, so that no batch, single-example
  batches included, fails on a dimensionality mismatch. The positive labels are
  (\<open>positive_labels_1d\<close>). The negative labels are squeezed before they are indexed and
  the reshape comes after the indexing: on a batch with exactly one
  \<^verbatim>\<open>question_wrong_answer\<close> edge the squeezed label tensor is 0-dimensional and
  indexing it raises \<^verbatim>\<open>IndexError\<close>, in the training loop and in the evaluation loop,
  whatever the model returns.
\<close>

theorem single_negative_edge_batch_raises:
  "train_batch c train_llm_feedbacks_dict link_prediction_loss_weight rw
     \<lparr>correct_edge_label = [1], correct_edge_label_index = [(0, 0)], wrong_edge_label = [0],
      wrong_edge_label_index = [(0, 1)], node_uid = [0]\<rparr> (acc, w) = Inl IndexError
   \<and> eval_batch c llm_feedbacks_dict question_to_subgraphs_mapping qa_dataset i
     \<lparr>correct_edge_label = [1], correct_edge_label_index = [(0, 0)], wrong_edge_label = [0],
      wrong_edge_label_index = [(0, 1)], node_uid = [0]\<rparr> (eacc, w) = Inl IndexError"
  by (simp add: train_batch_def eval_batch_def sample_negatives_single_negative split: prod.splits)


section \<open>Relevancy context builder and the confidence threshold\<close>

lemma process_question_high_confidence:
  assumes "question_index < length (node_uid b)"
    and "llm_feedbacks_dict (node_uid b ! question_index) = Some fb"
    and "\<not> cop_confidence_without_context fb < 0.26"
  shows "process_question c llm_feedbacks_dict q2s qa i b z question_index (ql, tr) =
           Inr (accumulate (cop_confidence_without_context fb) (is_correct_without_context fb)
                  (cop_confidence_without_context fb) (is_correct_without_context fb) ql, tr)"
  using assms by (simp add: process_question_def)

lemma process_question_low_confidence:
  assumes "question_index < length (node_uid b)"
    and "llm_feedbacks_dict (node_uid b ! question_index) = Some fb"
    and "cop_confidence_without_context fb < 0.26"
    and "q2s (node_uid b ! question_index) = Some sg"
    and "iloc qa (node_uid b ! question_index) = Inr row"
    and "correct_answer_map (cop row) = Some letter"
  shows "process_question c llm_feedbacks_dict q2s qa i b z question_index (ql, tr) =
           (let prompt = make_prompt (find_most_relevant_nodes c b z question_index sg 2) row;
                r = llm_get_confidence c letter (llm_inference c prompt);
                tr2 = tr @ [FindMostRelevantNodes (node_uid b ! question_index) 2,
                            LLMInference prompt]
            in if confidence r = - 1 then Inr (ql, tr2 @ [WrongResponseFormat i])
               else Inr (accumulate (cop_confidence r) (accuracy r)
                           (cop_confidence_without_context fb)
                           (is_correct_without_context fb) ql, tr2))"
  using assms by (simp add: process_question_def Let_def)

lemma process_question_Inr_trace:
  assumes "question_index < length (node_uid b)"
    and "llm_feedbacks_dict (node_uid b ! question_index) = Some fb"
    and "process_question c llm_feedbacks_dict q2s qa i b z question_index (ql, tr) = Inr (ql', tr')"
  shows "\<exists>new. tr' = tr @ new \<and>
           ((\<exists>prompt. LLMInference prompt \<in> set new) \<longleftrightarrow>
              cop_confidence_without_context fb < 0.26) \<and>
           (FindMostRelevantNodes (node_uid b ! question_index) 2 \<in> set new \<longleftrightarrow>
              cop_confidence_without_context fb < 0.26)"
proof (cases "cop_confidence_without_context fb < 0.26")
  case False
  with assms show ?thesis by (simp add: process_question_def)
next
  case True
  from assms(3) True assms(1,2) obtain sg where sg: "q2s (node_uid b ! question_index) = Some sg"
    by (cases "q2s (node_uid b ! question_index)") (auto simp: process_question_def)
  from assms(3) True assms(1,2) sg obtain row where row: "iloc qa (node_uid b ! question_index) = Inr row"
    by (cases "iloc qa (node_uid b ! question_index)") (auto simp: process_question_def Let_def)
  from assms(3) True assms(1,2) sg row obtain letter where l: "correct_answer_map (cop row) = Some letter"
    by (cases "correct_answer_map (cop row)") (auto simp: process_question_def Let_def)
  from assms True sg row l
  show ?thesis by (auto simp: process_question_def Let_def split: if_splits)
qed

text \<open>
  Claim C3. For every question with precomputed feedback that the evaluation loop processes,
  the relevancy context builder (retrieval of the \<open>k = 2\<close> most relevant nodes, prompt
  construction and a fresh LLM inference call) is invoked if and only if the precomputed
  confidence without context is below \<open>0.26\<close>. At a confidence of \<open>0.26\<close> or more no
  call is made and the context accuracy and confidence recorded for the question are its
  precomputed vanilla values. Below the threshold the calls are made whenever the subscripts
  of the branch succeed (the question has a subgraph mapping and a dataset row with a
  correct option in \<open>0..3\<close>).
\<close>

theorem context_builder_iff_low_confidence:
  assumes "question_index < length (node_uid b)"
    and "llm_feedbacks_dict (node_uid b ! question_index) = Some fb"
  shows "(\<not> cop_confidence_without_context fb < 0.26 \<longrightarrow>
            process_question c llm_feedbacks_dict question_to_subgraphs_mapping qa_dataset i b
              z_dict question_index (ql, tr) =
            Inr (accumulate (cop_confidence_without_context fb) (is_correct_without_context fb)
                   (cop_confidence_without_context fb) (is_correct_without_context fb) ql, tr))
       \<and> (\<forall>ql' tr'.
            process_question c llm_feedbacks_dict question_to_subgraphs_mapping qa_dataset i b
              z_dict question_index (ql, tr) = Inr (ql', tr') \<longrightarrow>
            (\<exists>new. tr' = tr @ new \<and>
               ((\<exists>prompt. LLMInference prompt \<in> set new) \<longleftrightarrow>
                  cop_confidence_without_context fb < 0.26) \<and>
               (FindMostRelevantNodes (node_uid b ! question_index) 2 \<in> set new \<longleftrightarrow>
                  cop_confidence_without_context fb < 0.26)))
       \<and> (\<forall>subgraph_tuples dataset_row letter.
            cop_confidence_without_context fb < 0.26 \<and>
            question_to_subgraphs_mapping (node_uid b ! question_index) = Some subgraph_tuples \<and>
            iloc qa_dataset (node_uid b ! question_index) = Inr dataset_row \<and>
            correct_answer_map (cop dataset_row) = Some letter \<longrightarrow>
            (\<exists>ql' rest.
               process_question c llm_feedbacks_dict question_to_subgraphs_mapping qa_dataset i b
                 z_dict question_index (ql, tr) =
               Inr (ql', tr @ [FindMostRelevantNodes (node_uid b ! question_index) 2,
                               LLMInference (make_prompt
                                 (find_most_relevant_nodes c b z_dict question_index
                                    subgraph_tuples 2) dataset_row)] @ rest)))"
proof (intro conjI allI impI)
  assume "\<not> cop_confidence_without_context fb < 0.26"
  then show "process_question c llm_feedbacks_dict question_to_subgraphs_mapping qa_dataset i b
              z_dict question_index (ql, tr) =
            Inr (accumulate (cop_confidence_without_context fb) (is_correct_without_context fb)
                   (cop_confidence_without_context fb) (is_correct_without_context fb) ql, tr)"
    using assms by (simp add: process_question_def)
next
  fix ql' tr'
  assume "process_question c llm_feedbacks_dict question_to_subgraphs_mapping qa_dataset i b
              z_dict question_index (ql, tr) = Inr (ql', tr')"
  then show "\<exists>new. tr' = tr @ new \<and>
               ((\<exists>prompt. LLMInference prompt \<in> set new) \<longleftrightarrow>
                  cop_confidence_without_context fb < 0.26) \<and>
               (FindMostRelevantNodes (node_uid b ! question_index) 2 \<in> set new \<longleftrightarrow>
                  cop_confidence_without_context fb < 0.26)"
    using assms process_question_Inr_trace[of question_index b llm_feedbacks_dict fb c
        question_to_subgraphs_mapping qa_dataset i z_dict ql tr ql' tr'] by blast
next
  fix subgraph_tuples dataset_row letter
  assume a: "cop_confidence_without_context fb < 0.26 \<and>
            question_to_subgraphs_mapping (node_uid b ! question_index) = Some subgraph_tuples \<and>
            iloc qa_dataset (node_uid b ! question_index) = Inr dataset_row \<and>
            correct_answer_map (cop dataset_row) = Some letter"
  then have "process_question c llm_feedbacks_dict question_to_subgraphs_mapping qa_dataset i b
              z_dict question_index (ql, tr) =
           (let prompt = make_prompt (find_most_relevant_nodes c b z_dict question_index subgraph_tuples 2) dataset_row;
                r = llm_get_confidence c letter (llm_inference c prompt);
                tr2 = tr @ [FindMostRelevantNodes (node_uid b ! question_index) 2,
                            LLMInference prompt]
            in if confidence r = - 1 then Inr (ql, tr2 @ [WrongResponseFormat i])
               else Inr (accumulate (cop_confidence r) (accuracy r)
                           (cop_confidence_without_context fb)
                           (is_correct_without_context fb) ql, tr2))"
    using assms by (simp add: process_question_def Let_def)
  then show "\<exists>ql' rest.
               process_question c llm_feedbacks_dict question_to_subgraphs_mapping qa_dataset i b
                 z_dict question_index (ql, tr) =
               Inr (ql', tr @ [FindMostRelevantNodes (node_uid b ! question_index) 2,
                               LLMInference (make_prompt
                                 (find_most_relevant_nodes c b z_dict question_index
                                    subgraph_tuples 2) dataset_row)] @ rest)"
    by (simp add: Let_def)
qed

theorem context_builder_iff_low_confidence_witness:
  "(0::nat) < length (node_uid ex_batch)
   \<and> [0 \<mapsto> ex_feedback_high] (node_uid ex_batch ! 0) = Some ex_feedback_high
   \<and> [0 \<mapsto> ex_feedback_low] (node_uid ex_batch ! 0) = Some ex_feedback_low
   \<and> \<not> cop_confidence_without_context ex_feedback_high < 0.26
   \<and> cop_confidence_without_context ex_feedback_low < 0.26
   \<and> process_question ex_collab [0 \<mapsto> ex_feedback_high] ex_subgraphs [ex_row] 0 ex_batch ()
       0 (no_questions, []) =
       Inr (\<lparr>vanilla_accuracy_list = [1], vanilla_confidence_list = [3 / 10],
             llm_aided_accuracy_list = [1], llm_aided_confidence_list = [3 / 10]\<rparr>, [])
   \<and> process_question ex_collab [0 \<mapsto> ex_feedback_low] ex_subgraphs [ex_row] 0 ex_batch ()
       0 (no_questions, []) =
       Inr (\<lparr>vanilla_accuracy_list = [0], vanilla_confidence_list = [1 / 10],
             llm_aided_accuracy_list = [1], llm_aided_confidence_list = [2 / 5]\<rparr>,
            [FindMostRelevantNodes 0 2,
             LLMInference ''Context: drug,gene. Question: Q? A. 1 B. 2 C. 3 D. 4''])"
proof -
  have i: "(0::nat) < length (node_uid ex_batch)" by (simp add: ex_batch_def)
  have h: "[0 \<mapsto> ex_feedback_high] (node_uid ex_batch ! 0) = Some ex_feedback_high"
    by (simp add: ex_batch_def)
  have l: "[0 \<mapsto> ex_feedback_low] (node_uid ex_batch ! 0) = Some ex_feedback_low"
    by (simp add: ex_batch_def)
  have low: "process_question ex_collab [0 \<mapsto> ex_feedback_low] ex_subgraphs [ex_row] 0 ex_batch ()
       0 (no_questions, []) =
       Inr (\<lparr>vanilla_accuracy_list = [0], vanilla_confidence_list = [1 / 10],
             llm_aided_accuracy_list = [1], llm_aided_confidence_list = [2 / 5]\<rparr>,
            [FindMostRelevantNodes 0 2,
             LLMInference ''Context: drug,gene. Question: Q? A. 1 B. 2 C. 3 D. 4''])"
    by (simp add: process_question_def ex_batch_def ex_feedback_low_def ex_subgraphs_def
          iloc_def ex_row_def correct_answer_map_def ex_collab_def make_prompt_def
          accumulate_def no_questions_def Let_def)
  note t = context_builder_iff_low_confidence
             [where llm_feedbacks_dict = "[0 \<mapsto> ex_feedback_high]" and b = ex_batch
                and question_index = 0 and fb = ex_feedback_high and c = ex_collab
                and question_to_subgraphs_mapping = ex_subgraphs and qa_dataset = "[ex_row]"
                and i = 0 and z_dict = "()" and ql = no_questions and tr = "[]", OF i h]
  from t low i h l show ?thesis
    by (simp add: ex_feedback_high_def ex_feedback_low_def accumulate_def no_questions_def)
qed

section \<open>Averages with a floored denominator\<close>

lemma floored_average_eq: "floored_average xs = Inr (sum_list xs / real (max 1 (length xs)))"
  by (simp add: floored_average_def py_truediv_def)

lemma floored_average_Nil: "floored_average [] = Inr 0"
  by (simp add: floored_average_eq)

lemma accumulate_batch_averages_no_questions:
  "accumulate_batch_averages no_questions acc = Inr acc"
  by (simp add: accumulate_batch_averages_def no_questions_def floored_average_eq)

section \<open>Loops and the exceptions they raise\<close>

lemma efold_invariant:
  assumes "\<And>x s s'. P s \<Longrightarrow> f x s = Inr s' \<Longrightarrow> P s'" and "P s" and "efold f xs s = Inr s'"
  shows "P s'"
  using assms(2,3)
proof (induction xs arbitrary: s)
  case Nil
  then show ?case by simp
next
  case (Cons x xs)
  then show ?case using assms(1) by (auto simp: ebind_eq_Inr)
qed

lemma ebind_eq_Inl: "ebind m f = Inl e \<longleftrightarrow> m = Inl e \<or> (\<exists>v. m = Inr v \<and> f v = Inl e)"
  by (cases m) simp_all

lemma efold_error:
  assumes "efold f xs s = Inl e"
  shows "\<exists>x s'. f x s' = Inl e"
  using assms
  by (induction xs arbitrary: s) (auto simp: ebind_eq_Inl)

lemma eval_loop_error:
  assumes "eval_loop body n i bs s = Inl e"
  shows "\<exists>j b s'. body j b s' = Inl e"
  using assms
  by (induction bs arbitrary: i s) (auto simp: ebind_eq_Inl split: if_splits)

lemma eval_loop_invariant:
  assumes "\<And>j b s s'. P s \<Longrightarrow> body j b s = Inr s' \<Longrightarrow> P s'" and "P s"
    and "eval_loop body n i bs s = Inr s'"
  shows "P s'"
  using assms(2,3)
proof (induction bs arbitrary: i s)
  case Nil
  then show ?case by simp
next
  case (Cons b bs)
  from Cons.prems(2) obtain v where v: "body i b s = Inr v"
    and r: "(if n \<le> int (i + 1) then Inr v else eval_loop body n (i + 1) bs v) = Inr s'"
    by (auto simp: ebind_eq_Inr)
  have pv: "P v" using assms(1)[OF Cons.prems(1) v] .
  show ?case
  proof (cases "n \<le> int (i + 1)")
    case True
    with r pv show ?thesis by simp
  next
    case False
    with r have "eval_loop body n (i + 1) bs v = Inr s'" by simp
    from Cons.IH[OF pv this] show ?thesis .
  qed
qed

lemma sample_negatives_error: "sample_negatives rp b neg_pred = Inl e \<Longrightarrow> e = IndexError"
  by (cases neg_pred; cases "squeeze (Vec (wrong_edge_label b))")
     (auto simp: sample_negatives_def draw_neg_sample_indices_eq ebind_eq_Inl view1_if_scalar_def
        split: if_splits)

lemma process_question_error:
  "process_question c fbs q2s qa i b z q st = Inl e \<Longrightarrow> e = IndexError \<or> e = KeyError"
  by (cases st)
     (auto simp: process_question_def Let_def ebind_eq_Inl iloc_def
        split: if_splits option.splits)

lemma accumulate_batch_averages_Inr: "\<exists>acc'. accumulate_batch_averages ql acc = Inr acc'"
  by (simp add: accumulate_batch_averages_def floored_average_eq)

lemma eval_batch_error:
  assumes "eval_batch c fbs q2s qa i b st = Inl e"
  shows "e \<noteq> ZeroDivisionError"
proof
  assume z: "e = ZeroDivisionError"
  obtain acc w where st: "st = (acc, w)" by (cases st)
  obtain pp np zz where f: "hgt_forward c (named_parameters w) (training w) b = (pp, np, zz)"
    by (cases "hgt_forward c (named_parameters w) (training w) b") auto
  from assms st f z consider
      (a) "sample_negatives (randperm c (draws w)) b np = Inl ZeroDivisionError"
    | (b) "\<exists>qs s0. efold (process_question c fbs q2s qa i b zz) qs s0 = Inl ZeroDivisionError"
    | (c) "\<exists>ql a. accumulate_batch_averages ql a = Inl ZeroDivisionError"
    by (auto simp: eval_batch_def ebind_eq_Inl Let_def split: prod.splits) blast+
  then show False
  proof cases
    case a
    then show ?thesis using sample_negatives_error by blast
  next
    case b
    then obtain qs s0 where
      "efold (process_question c fbs q2s qa i b zz) qs s0 = Inl ZeroDivisionError" by blast
    from efold_error[OF this] obtain x s' where
      "process_question c fbs q2s qa i b zz x s' = Inl ZeroDivisionError" by blast
    from process_question_error[OF this] show ?thesis by simp
  next
    case c
    then show ?thesis using accumulate_batch_averages_Inr by (metis Inl_Inr_False)
  qed
qed

lemma torch_cat_error: "torch_cat ts = Inl e \<Longrightarrow> e = RuntimeError"
proof -
  have "cat_rows ts = Inl e \<Longrightarrow> e = RuntimeError" for ts :: "'a tensor list"
    by (induction ts rule: cat_rows.induct) (auto simp: ebind_eq_Inl)
  then show "torch_cat ts = Inl e \<Longrightarrow> e = RuntimeError"
    by (auto simp: torch_cat_def split: if_splits)
qed

lemma evaluate_no_zero_division:
  "evaluate c split_loaders split_name qa_dataset llm_feedbacks_dict
     question_to_subgraphs_mapping frac' w \<noteq> Inl ZeroDivisionError"
proof
  assume a: "evaluate c split_loaders split_name qa_dataset llm_feedbacks_dict
     question_to_subgraphs_mapping frac' w = Inl ZeroDivisionError"
  then obtain loader where l: "split_loaders split_name = Some loader"
    by (cases "split_loaders split_name") (auto simp: evaluate_def)
  from a l consider
      (a) "\<exists>n i s. eval_loop (eval_batch c llm_feedbacks_dict question_to_subgraphs_mapping
                              qa_dataset) n i loader s = Inl ZeroDivisionError"
    | (b) "\<exists>ts :: real tensor list. torch_cat ts = Inl ZeroDivisionError"
    | (c) "\<exists>xs. floored_average xs = Inl ZeroDivisionError"
    by (auto simp: evaluate_def evaluate_results_def ebind_eq_Inl Let_def
          dest: py_round_float_error split: prod.splits) blast+
  then show False
  proof cases
    case a
    then obtain n i s where
      "eval_loop (eval_batch c llm_feedbacks_dict question_to_subgraphs_mapping qa_dataset)
         n i loader s = Inl ZeroDivisionError" by blast
    from eval_loop_error[OF this] obtain j b s' where
      "eval_batch c llm_feedbacks_dict question_to_subgraphs_mapping qa_dataset j b s' =
         Inl ZeroDivisionError" by blast
    from eval_batch_error[OF this] show ?thesis by simp
  next
    case b
    then show ?thesis using torch_cat_error by blast
  next
    case c
    then show ?thesis by (simp add: floored_average_eq)
  qed
qed

lemma process_question_no_feedback:
  assumes "process_question c Map.empty q2s qa i b z q st = Inr st'"
  shows "st' = st"
  using assms by (cases st) (auto simp: process_question_def split: if_splits)

lemma question_loop_no_feedback:
  assumes "efold (process_question c Map.empty q2s qa i b z) qs st = Inr st'"
  shows "st' = st"
proof (rule efold_invariant[where P = "\<lambda>s. s = st", OF _ _ assms])
  fix x s s'
  assume "s = st" and "process_question c Map.empty q2s qa i b z x s = Inr s'"
  then show "s' = st" using process_question_no_feedback[of c q2s qa i b z x s s'] by simp
qed simp

lemma eval_batch_no_feedback:
  assumes "eval_batch c Map.empty q2s qa i b (acc, w) = Inr (acc', w')"
    and "average_llm_vanilla_accuracy_list acc = [] \<and> average_llm_aided_accuracy_list acc = []"
  shows "average_llm_vanilla_accuracy_list acc' = [] \<and> average_llm_aided_accuracy_list acc' = []"
proof -
  obtain pp np zz where f: "hgt_forward c (named_parameters w) (training w) b = (pp, np, zz)"
    by (cases "hgt_forward c (named_parameters w) (training w) b") auto
  from assms(1) f have "\<exists>(s :: sampled) ql tr.
        efold (process_question c Map.empty q2s qa i b zz) (map fst (correct_edge_label_index b))
            (no_questions, trace w) = Inr (ql, tr)
      \<and> accumulate_batch_averages ql
              (store_results pp (neg_pred_sampled s) (pos_y s) (neg_y s) acc) = Inr acc'"
    by (auto simp: eval_batch_def ebind_eq_Inr Let_def)
  then obtain s :: sampled and ql tr where
      q: "efold (process_question c Map.empty q2s qa i b zz) (map fst (correct_edge_label_index b))
            (no_questions, trace w) = Inr (ql, tr)"
    and a: "accumulate_batch_averages ql
              (store_results pp (neg_pred_sampled s) (pos_y s) (neg_y s) acc) = Inr acc'"
    by blast
  from question_loop_no_feedback[OF q] have "ql = no_questions" by simp
  with a have "acc' = store_results pp (neg_pred_sampled s) (pos_y s) (neg_y s) acc"
    by (simp add: accumulate_batch_averages_no_questions)
  with assms(2) show ?thesis by (simp add: store_results_def)
qed

text \<open>
  Claim C6. Every average the evaluation loop computes over a list that may be empty has
  its denominator floored at one: an empty per-batch list has average zero (and then
  nothing is appended to the running lists), empty final lists give
  \<^verbatim>\<open>vanilla_accuracy\<close> and \<^verbatim>\<open>context_accuracy\<close> zero (as when no question has
  feedback), and the evaluation loop never raises a division by zero.
\<close>

theorem averages_never_divide_by_zero:
  "floored_average xs = Inr (sum_list xs / real (max 1 (length xs)))
   \<and> 1 \<le> max 1 (length xs)
   \<and> floored_average [] = Inr 0
   \<and> accumulate_batch_averages no_questions acc = Inr acc
   \<and> evaluate c split_loaders split_name qa_dataset llm_feedbacks_dict
       question_to_subgraphs_mapping frac' w \<noteq> Inl ZeroDivisionError
   \<and> (\<forall>pred true res w'.
        evaluate c split_loaders split_name qa_dataset Map.empty
          question_to_subgraphs_mapping frac' w = Inr ((pred, true, res), w') \<longrightarrow>
        vanilla_accuracy res = 0 \<and> context_accuracy res = 0)"
proof -
  have "vanilla_accuracy res = 0 \<and> context_accuracy res = 0"
    if e: "evaluate c split_loaders split_name qa_dataset Map.empty
          question_to_subgraphs_mapping frac' w = Inr ((pred, true, res), w')"
    for pred true res w'
  proof -
    from e obtain loader where l: "split_loaders split_name = Some loader"
      by (cases "split_loaders split_name") (auto simp: evaluate_def)
    from e l obtain n acc w1 where
        lp: "eval_loop (eval_batch c Map.empty question_to_subgraphs_mapping qa_dataset)
               n 0 loader (empty_eval_acc, w\<lparr>training := False\<rparr>) = Inr (acc, w1)"
      and va: "floored_average (average_llm_vanilla_accuracy_list acc) = Inr (vanilla_accuracy res)"
      and ca: "floored_average (average_llm_aided_accuracy_list acc) = Inr (context_accuracy res)"
      by (auto simp: evaluate_def evaluate_results_def ebind_eq_Inr Let_def)
    have "average_llm_vanilla_accuracy_list (fst (acc, w1)) = [] \<and>
          average_llm_aided_accuracy_list (fst (acc, w1)) = []"
    proof (rule eval_loop_invariant
              [where P = "\<lambda>s. average_llm_vanilla_accuracy_list (fst s) = [] \<and>
                               average_llm_aided_accuracy_list (fst s) = []", OF _ _ lp])
      fix j b s s'
      assume "average_llm_vanilla_accuracy_list (fst s) = [] \<and>
              average_llm_aided_accuracy_list (fst s) = []"
        and "eval_batch c Map.empty question_to_subgraphs_mapping qa_dataset j b s = Inr s'"
      then show "average_llm_vanilla_accuracy_list (fst s') = [] \<and>
                 average_llm_aided_accuracy_list (fst s') = []"
        using eval_batch_no_feedback[of c question_to_subgraphs_mapping qa_dataset j b
                "fst s" "snd s" "fst s'" "snd s'"] by simp
    next
      show "average_llm_vanilla_accuracy_list (fst (empty_eval_acc, w\<lparr>training := False\<rparr>)) = [] \<and>
            average_llm_aided_accuracy_list (fst (empty_eval_acc, w\<lparr>training := False\<rparr>)) = []"
        by (simp add: empty_eval_acc_def)
    qed
    with va ca show ?thesis by (simp add: floored_average_eq)
  qed
  then show ?thesis
    using evaluate_no_zero_division[of c split_loaders split_name qa_dataset llm_feedbacks_dict
            question_to_subgraphs_mapping frac' w]
    by (simp add: floored_average_eq accumulate_batch_averages_no_questions)
qed

lemma ex_eval_no_feedback:
  "evaluate ex_collab [''val'' \<mapsto> [ex_batch]] ''val'' [ex_row] Map.empty ex_subgraphs 1 ex_world =
     Inr (([9 / 10, 1 / 5, 1 / 10], [1, 0, 0],
           \<lparr>vanilla_accuracy = 0, context_accuracy = 0\<rparr>),
          ex_world\<lparr>draws := 1\<rparr>)"
  by (simp add: evaluate_def evaluate_results_def py_round_float_def float_of_nat_examples
        float_mul_examples py_round_def eval_batch_def ex_collab_def ex_batch_def ex_world_def
        sample_negatives_def draw_neg_sample_indices_eq view1_if_scalar_def upt_rec
        process_question_def accumulate_batch_averages_def floored_average_eq no_questions_def
        store_results_def empty_eval_acc_def torch_cat_def named_parameters_def)

theorem averages_never_divide_by_zero_witness:
  "evaluate ex_collab [''val'' \<mapsto> [ex_batch]] ''val'' [ex_row] Map.empty ex_subgraphs 1 ex_world =
     Inr (([9 / 10, 1 / 5, 1 / 10], [1, 0, 0],
           \<lparr>vanilla_accuracy = 0, context_accuracy = 0\<rparr>),
          ex_world\<lparr>draws := 1\<rparr>)
   \<and> vanilla_accuracy \<lparr>vanilla_accuracy = 0, context_accuracy = 0\<rparr> = 0"
  using averages_never_divide_by_zero
          [of "[]" empty_eval_acc ex_collab "[''val'' \<mapsto> [ex_batch]]" "''val''" "[ex_row]"
              Map.empty ex_subgraphs 1 ex_world]
        ex_eval_no_feedback
  by simp

section \<open>Malformed LLM responses\<close>

text \<open>
  Claim C5. When the LLM-aided inference for a low-confidence question (confidence below
  \<open>0.26\<close>) returns a malformed response (\<^verbatim>\<open>confidence == -1\<close>), the question adds no
  entry to the batch's LLM metric lists, a notice is printed and the iteration goes on with
  the next question; the link-prediction tensors of the batch are stored all the same; and if
  it was the only question of the batch, the batch-level averages are zero and nothing is
  appended to the running lists.
\<close>

theorem malformed_response_dropped:
  assumes "question_index < length (node_uid b)"
    and "llm_feedbacks_dict (node_uid b ! question_index) = Some fb"
    and "cop_confidence_without_context fb < 0.26"
    and "question_to_subgraphs_mapping (node_uid b ! question_index) = Some subgraph_tuples"
    and "iloc qa_dataset (node_uid b ! question_index) = Inr dataset_row"
    and "correct_answer_map (cop dataset_row) = Some letter"
    and "prompt = make_prompt
           (find_most_relevant_nodes c b z_dict question_index subgraph_tuples 2) dataset_row"
    and "confidence (llm_get_confidence c letter (llm_inference c prompt)) = - 1"
    and "notice = [FindMostRelevantNodes (node_uid b ! question_index) 2, LLMInference prompt,
                   WrongResponseFormat i]"
  shows "process_question c llm_feedbacks_dict question_to_subgraphs_mapping qa_dataset i b
           z_dict question_index (ql, tr) = Inr (ql, tr @ notice)
       \<and> efold (process_question c llm_feedbacks_dict question_to_subgraphs_mapping qa_dataset
                  i b z_dict) (question_index # rest) (ql, tr) =
         efold (process_question c llm_feedbacks_dict question_to_subgraphs_mapping qa_dataset
                  i b z_dict) rest (ql, tr @ notice)
       \<and> floored_average (llm_aided_confidence_list no_questions) = Inr 0
       \<and> floored_average (llm_aided_accuracy_list no_questions) = Inr 0
       \<and> floored_average (vanilla_confidence_list no_questions) = Inr 0
       \<and> floored_average (vanilla_accuracy_list no_questions) = Inr 0
       \<and> (hgt_forward c (named_parameters w) (training w) b = (pos_pred, neg_pred, z_dict) \<and>
          sample_negatives (randperm c (draws w)) b neg_pred = Inr s \<and>
          map fst (correct_edge_label_index b) = [question_index] \<longrightarrow>
          eval_batch c llm_feedbacks_dict question_to_subgraphs_mapping qa_dataset i b (acc, w) =
            Inr (store_results pos_pred (neg_pred_sampled s) (pos_y s) (neg_y s) acc,
                 w\<lparr>draws := draws w + 1, trace := trace w @ notice\<rparr>))"
proof -
  have pq: "process_question c llm_feedbacks_dict question_to_subgraphs_mapping qa_dataset i b
           z_dict question_index (ql', tr') = Inr (ql', tr' @ notice)" for ql' tr'
    using assms by (simp add: process_question_def Let_def)
  show ?thesis
    by (simp add: pq eval_batch_def accumulate_batch_averages_no_questions floored_average_eq
          no_questions_def[symmetric])
       (simp add: no_questions_def)
qed

theorem malformed_response_dropped_witness:
  "(0::nat) < length (node_uid ex_batch)
   \<and> [0 \<mapsto> ex_feedback_low] (node_uid ex_batch ! 0) = Some ex_feedback_low
   \<and> cop_confidence_without_context ex_feedback_low < 0.26
   \<and> ex_subgraphs (node_uid ex_batch ! 0) = Some [(''drug'', 5), (''gene'', 6), (''x'', 7)]
   \<and> iloc [ex_row] (node_uid ex_batch ! 0) = Inr ex_row
   \<and> correct_answer_map (cop ex_row) = Some CHR ''C''
   \<and> confidence (llm_get_confidence ex_collab_malformed CHR ''C''
        (llm_inference ex_collab_malformed
           ''Context: drug,gene. Question: Q? A. 1 B. 2 C. 3 D. 4'')) = - 1
   \<and> hgt_forward ex_collab_malformed (named_parameters ex_world) (training ex_world) ex_batch =
       (Vec [9 / 10], Vec [0, 1 / 10, 1 / 5], ())
   \<and> sample_negatives (randperm ex_collab_malformed (draws ex_world)) ex_batch
       (Vec [0, 1 / 10, 1 / 5]) =
       Inr \<lparr>pos_y = Vec [1], neg_sample_indices = [2, 1],
            neg_pred_sampled = Vec [1 / 5, 1 / 10], neg_y = Vec [0, 0]\<rparr>
   \<and> map fst (correct_edge_label_index ex_batch) = [0]
   \<and> eval_batch ex_collab_malformed [0 \<mapsto> ex_feedback_low] ex_subgraphs [ex_row] 0 ex_batch
       (empty_eval_acc, ex_world) =
       Inr (empty_eval_acc\<lparr>pos_y_true_tensors := [Vec [1]], neg_y_true_tensors := [Vec [0, 0]],
                           pos_y_pred_tensors := [Vec [9 / 10]],
                           neg_y_pred_tensors := [Vec [1 / 5, 1 / 10]]\<rparr>,
            ex_world\<lparr>draws := 1,
                     trace := [FindMostRelevantNodes 0 2,
                               LLMInference ''Context: drug,gene. Question: Q? A. 1 B. 2 C. 3 D. 4'',
                               WrongResponseFormat 0]\<rparr>)"
proof -
  have i: "(0::nat) < length (node_uid ex_batch)" by (simp add: ex_batch_def)
  have fb: "[0 \<mapsto> ex_feedback_low] (node_uid ex_batch ! 0) = Some ex_feedback_low"
    by (simp add: ex_batch_def)
  have low: "cop_confidence_without_context ex_feedback_low < 0.26"
    by (simp add: ex_feedback_low_def)
  have sg: "ex_subgraphs (node_uid ex_batch ! 0) = Some [(''drug'', 5), (''gene'', 6), (''x'', 7)]"
    by (simp add: ex_subgraphs_def ex_batch_def)
  have row: "iloc [ex_row] (node_uid ex_batch ! 0) = Inr ex_row"
    by (simp add: iloc_def ex_batch_def)
  have letter: "correct_answer_map (cop ex_row) = Some CHR ''C''"
    by (simp add: correct_answer_map_def ex_row_def)
  have prompt: "''Context: drug,gene. Question: Q? A. 1 B. 2 C. 3 D. 4'' =
      make_prompt (find_most_relevant_nodes ex_collab_malformed ex_batch () 0
                     [(''drug'', 5), (''gene'', 6), (''x'', 7)] 2) ex_row"
    by (simp add: make_prompt_def ex_collab_malformed_def ex_collab_def ex_row_def)
  have mal: "confidence (llm_get_confidence ex_collab_malformed CHR ''C''
        (llm_inference ex_collab_malformed
           ''Context: drug,gene. Question: Q? A. 1 B. 2 C. 3 D. 4'')) = - 1"
    by (simp add: ex_collab_malformed_def)
  have f: "hgt_forward ex_collab_malformed (named_parameters ex_world) (training ex_world) ex_batch =
       (Vec [9 / 10], Vec [0, 1 / 10, 1 / 5], ())"
    by (simp add: ex_collab_malformed_def ex_collab_def ex_batch_def upt_rec)
  have s: "sample_negatives (randperm ex_collab_malformed (draws ex_world)) ex_batch
       (Vec [0, 1 / 10, 1 / 5]) =
       Inr \<lparr>pos_y = Vec [1], neg_sample_indices = [2, 1],
            neg_pred_sampled = Vec [1 / 5, 1 / 10], neg_y = Vec [0, 0]\<rparr>"
    by (simp add: sample_negatives_def draw_neg_sample_indices_eq ex_batch_def
          ex_collab_malformed_def ex_collab_def view1_if_scalar_def upt_rec)
  have q: "map fst (correct_edge_label_index ex_batch) = [0]" by (simp add: ex_batch_def)
  note t = malformed_response_dropped
             [where llm_feedbacks_dict = "[0 \<mapsto> ex_feedback_low]" and b = ex_batch
                and question_index = 0 and c = ex_collab_malformed and z_dict = "()"
                and i = 0 and w = ex_world and acc = empty_eval_acc
                and fb = ex_feedback_low and question_to_subgraphs_mapping = ex_subgraphs
                and qa_dataset = "[ex_row]" and dataset_row = ex_row
                and subgraph_tuples = "[(''drug'', 5), (''gene'', 6), (''x'', 7)]"
                and letter = "CHR ''C''"
                and prompt = "''Context: drug,gene. Question: Q? A. 1 B. 2 C. 3 D. 4''"
                and pos_pred = "Vec [9 / 10]" and neg_pred = "Vec [0, 1 / 10, 1 / 5]"
                and s = "\<lparr>pos_y = Vec [1], neg_sample_indices = [2, 1],
                           neg_pred_sampled = Vec [1 / 5, 1 / 10], neg_y = Vec [0, 0]\<rparr>",
              OF i fb low sg row letter prompt mal refl]
  from t i fb low sg row letter mal f s q show ?thesis
    by (simp add: store_results_def empty_eval_acc_def ex_world_def ex_batch_def)
qed

section \<open>Number of batches the evaluation loops process\<close>

text \<open>\<^verbatim>\<open>num_batches\<close> is computed in floats: \<^verbatim>\<open>round(0.35 * 90)\<close> and
  \<^verbatim>\<open>round(0.7 * 45)\<close> are 31, where the product of the decimal numbers is \<open>31.5\<close>, which
  rounds to 32; \<^verbatim>\<open>round(0.03 * 50)\<close> is 2, where the product of the float \<^verbatim>\<open>0.03\<close>
  and 50 is below \<open>1.5\<close> before it is rounded to a float.\<close>

lemma float_product_examples:
  "py_round_float (float_mul (round_to_double (35 / 100)) (float_of_nat 90)) = Inr 31"
  "py_round_float (float_mul (round_to_double (7 / 10)) (float_of_nat 45)) = Inr 31"
  "py_round (35 / 100 * 90) = 32"
  "py_round_float (float_mul (round_to_double (3 / 100)) (float_of_nat 50)) = Inr 2"
  "round_to_double (3 / 100) = 8646911284551352 / 2 ^ 58"
  "py_round (8646911284551352 / 2 ^ 58 * 50) = 1"
  by (simp_all add: py_round_float_def float_mul_def float_of_nat_def round_to_double_def
        normalise_unfold py_round_def pow2_def)













section \<open>The training loop, step by step\<close>

lemma efold_appends:
  assumes step: "\<And>x a w a' w'. f x (a, w) = Inr (a', w') \<Longrightarrow> \<exists>y. g a' = g a @ [y] \<and> R x y"
    and run: "efold f xs (a, w) = Inr (a', w')"
  shows "\<exists>ys. g a' = g a @ ys \<and> list_all2 R xs ys"
  using run
proof (induction xs arbitrary: a w)
  case Nil
  then show ?case by simp
next
  case (Cons x xs)
  from Cons.prems obtain a1 w1 where
    1: "f x (a, w) = Inr (a1, w1)" and 2: "efold f xs (a1, w1) = Inr (a', w')"
    by (auto simp: ebind_eq_Inr)
  from step[OF 1] obtain y where y: "g a1 = g a @ [y]" "R x y" by blast
  from Cons.IH[OF 2] obtain ys where ys: "g a' = g a1 @ ys" "list_all2 R xs ys" by blast
  from y ys have "g a' = g a @ (y # ys) \<and> list_all2 R (x # xs) (y # ys)" by simp
  then show ?case by blast
qed

lemma train_batch_eq_Inr:
  assumes "train_batch c fb lw lw' b (acc, w) = Inr (acc', w')"
  obtains pos neg z s opt' vals where
    "hgt_forward c (named_parameters w) (training w) b = (pos, neg, z)"
    "sample_negatives (randperm c (draws w)) b neg = Inr s"
    "train_losses acc' = train_losses acc @
       [lw * compute_link_prediction_loss c pos (neg_pred_sampled s) (pos_y s) (neg_y s)
        + lw' * compute_llm_relevancy_loss c b z fb]"
    "w' = w\<lparr>heap := write_params (map snd (param_refs w)) vals (heap w),
            opt_state := opt', draws := draws w + 1\<rparr>"
proof -
  obtain pos neg z where f: "hgt_forward c (named_parameters w) (training w) b = (pos, neg, z)"
    by (cases "hgt_forward c (named_parameters w) (training w) b")
  from assms f obtain s where s: "sample_negatives (randperm c (draws w)) b neg = Inr s"
    by (auto simp: train_batch_def ebind_eq_Inr)
  let ?loss = "lw * compute_link_prediction_loss c pos (neg_pred_sampled s) (pos_y s) (neg_y s)
        + lw' * compute_llm_relevancy_loss c b z fb"
  obtain opt' vals where
    b: "backward_and_step c (opt_state w) (named_parameters w) b ?loss = (opt', vals)"
    by (cases "backward_and_step c (opt_state w) (named_parameters w) b ?loss")
  from assms f s b have
    "train_losses acc' = train_losses acc @ [?loss]"
    "w' = w\<lparr>heap := write_params (map snd (param_refs w)) vals (heap w),
            opt_state := opt', draws := draws w + 1\<rparr>"
    by (auto simp: train_batch_def total_loss_def Let_def store_results_def)
  with f s that show thesis by blast
qed

lemma efold_train_batch_losses:
  assumes "efold (train_batch c fb lw lw') bs (acc, w) = Inr (acc', w')"
  shows "\<exists>ls. train_losses acc' = train_losses acc @ ls \<and>
           list_all2 (\<lambda>b l. \<exists>ps m k pos neg z s.
                hgt_forward c ps m b = (pos, neg, z)
              \<and> sample_negatives (randperm c k) b neg = Inr s
              \<and> l = lw * compute_link_prediction_loss c pos (neg_pred_sampled s) (pos_y s) (neg_y s)
                    + lw' * compute_llm_relevancy_loss c b z fb) bs ls"
proof (rule efold_appends[where f = "train_batch c fb lw lw'" and g = train_losses, OF _ assms])
  fix b a wa a' wa'
  assume "train_batch c fb lw lw' b (a, wa) = Inr (a', wa')"
  then obtain pos neg z s where
    "hgt_forward c (named_parameters wa) (training wa) b = (pos, neg, z)"
    "sample_negatives (randperm c (draws wa)) b neg = Inr s"
    "train_losses a' = train_losses a @
       [lw * compute_link_prediction_loss c pos (neg_pred_sampled s) (pos_y s) (neg_y s)
        + lw' * compute_llm_relevancy_loss c b z fb]"
    by (rule train_batch_eq_Inr)
  then show
    "\<exists>y. train_losses a' = train_losses a @ [y] \<and>
         (\<exists>ps m k pos neg z s.
                hgt_forward c ps m b = (pos, neg, z)
              \<and> sample_negatives (randperm c k) b neg = Inr s
              \<and> y = lw * compute_link_prediction_loss c pos (neg_pred_sampled s) (pos_y s) (neg_y s)
                    + lw' * compute_llm_relevancy_loss c b z fb)"
    by (intro exI conjI) (assumption | rule refl)+
qed

lemma train_epoch_eq_Inr:
  assumes "train_epoch c sl loader qa tfb vfb q2s lw lw' e (hist, w) = Inr (hist', w')"
  obtains acc w2 r w4 er where
    "efold (train_batch c tfb lw lw') loader (empty_epoch_acc, w\<lparr>ticks := ticks w + 1\<rparr>) =
       Inr (acc, w2)"
    "evaluate c sl ''val'' qa vfb q2s 1 (w2\<lparr>ticks := ticks w2 + 1\<rparr>) = Inr (r, w4)"
    "hist' = hist @ [er]" "hgt_epoch_num er = e"
    "hgt_mean_train_loss er = round_ndigits (np_mean (train_losses acc)) 4"
    "w' = w4\<lparr>opt_state := scheduler_step c (opt_state w4)\<rparr>"
proof -
  from assms obtain acc w2 where
    1: "efold (train_batch c tfb lw lw') loader (empty_epoch_acc, w\<lparr>ticks := ticks w + 1\<rparr>) =
       Inr (acc, w2)"
    by (auto simp: train_epoch_def Let_def ebind_eq_Inr)
  from assms 1 obtain r w4 er where
    "evaluate c sl ''val'' qa vfb q2s 1 (w2\<lparr>ticks := ticks w2 + 1\<rparr>) = Inr (r, w4)"
    "hist' = hist @ [er]" "hgt_epoch_num er = e"
    "hgt_mean_train_loss er = round_ndigits (np_mean (train_losses acc)) 4"
    "w' = w4\<lparr>opt_state := scheduler_step c (opt_state w4)\<rparr>"
    by (auto simp: train_epoch_def Let_def ebind_eq_Inr)
  with 1 that show thesis by blast
qed


lemma train_epoch_result:
  assumes "train_epoch c sl loader qa tfb vfb q2s lw lw' e (hist, w) = Inr (hist', w')"
  shows "\<exists>er. hist' = hist @ [er] \<and>
           (hgt_epoch_num er = e \<and>
            (\<exists>ls. hgt_mean_train_loss er = round_ndigits (np_mean ls) 4 \<and>
               list_all2 (\<lambda>b l. \<exists>ps m k pos neg z s.
                    hgt_forward c ps m b = (pos, neg, z)
                  \<and> sample_negatives (randperm c k) b neg = Inr s
                  \<and> l = lw * compute_link_prediction_loss c pos (neg_pred_sampled s)
                             (pos_y s) (neg_y s)
                        + lw' * compute_llm_relevancy_loss c b z tfb) loader ls))"
proof -
  from assms obtain acc w2 er where
    1: "efold (train_batch c tfb lw lw') loader (empty_epoch_acc, w\<lparr>ticks := ticks w + 1\<rparr>) =
       Inr (acc, w2)"
    and 2: "hist' = hist @ [er]" "hgt_epoch_num er = e"
      "hgt_mean_train_loss er = round_ndigits (np_mean (train_losses acc)) 4"
    by (rule train_epoch_eq_Inr)
  from efold_train_batch_losses[OF 1] obtain ls where
    "train_losses acc = ls"
    "list_all2 (\<lambda>b l. \<exists>ps m k pos neg z s.
                    hgt_forward c ps m b = (pos, neg, z)
                  \<and> sample_negatives (randperm c k) b neg = Inr s
                  \<and> l = lw * compute_link_prediction_loss c pos (neg_pred_sampled s)
                             (pos_y s) (neg_y s)
                        + lw' * compute_llm_relevancy_loss c b z tfb) loader ls"
    by (auto simp: empty_epoch_acc_def)
  with 2 show ?thesis by blast
qed

lemma train_eq_Inr:
  assumes "train c split_loaders qa_dataset train_llm_feedbacks_dict val_llm_feedbacks_dict
             question_to_subgraphs_mapping num_epochs lr link_prediction_loss_weight w =
           Inr (mr, w')"
  obtains eval_qa_dataset train_loader w2 test_pred test_true w4 where
    "qa_dataset ''validation'' = Some eval_qa_dataset"
    "split_loaders ''train'' = Some train_loader"
    "efold (train_epoch c split_loaders train_loader eval_qa_dataset
              train_llm_feedbacks_dict val_llm_feedbacks_dict
              question_to_subgraphs_mapping link_prediction_loss_weight
              (1 - link_prediction_loss_weight))
       [1 .. num_epochs]
       ([], w\<lparr>training := True, opt_state := make_optimizer c lr, ticks := ticks w + 1\<rparr>) =
     Inr (hgt_epoch_results mr, w2)"
    "evaluate c split_loaders ''test'' eval_qa_dataset val_llm_feedbacks_dict
       question_to_subgraphs_mapping 1
       (w2\<lparr>heap := snd (deepcopy (state_dict_of w2) (heap w2))\<rparr>) =
     Inr ((test_pred, test_true, test_llm_acc_dict mr), w4)"
    "hgt_state_dict mr = fst (deepcopy (state_dict_of w2) (heap w2))"
    "w' = w4\<lparr>training := False, ticks := ticks w4 + 1\<rparr>"
proof -
  from assms obtain eval_qa_dataset where q: "qa_dataset ''validation'' = Some eval_qa_dataset"
    by (cases "qa_dataset ''validation''") (auto simp: train_def)
  from assms q obtain train_loader where l: "split_loaders ''train'' = Some train_loader"
    by (cases "split_loaders ''train''") (auto simp: train_def Let_def)
  from assms q l obtain epoch_results' w2 where
    e: "efold (train_epoch c split_loaders train_loader eval_qa_dataset
              train_llm_feedbacks_dict val_llm_feedbacks_dict
              question_to_subgraphs_mapping link_prediction_loss_weight
              (1 - link_prediction_loss_weight))
       [1 .. num_epochs]
       ([], w\<lparr>training := True, opt_state := make_optimizer c lr, ticks := ticks w + 1\<rparr>) =
     Inr (epoch_results', w2)"
    by (auto simp: train_def Let_def ebind_eq_Inr llm_relevancy_loss_weight_def)
  obtain sd h where d: "deepcopy (state_dict_of w2) (heap w2) = (sd, h)"
    by (cases "deepcopy (state_dict_of w2) (heap w2)")
  from assms q l e d obtain test_pred test_true acc w4 where
    t: "evaluate c split_loaders ''test'' eval_qa_dataset val_llm_feedbacks_dict
          question_to_subgraphs_mapping 1 (w2\<lparr>heap := h\<rparr>) =
        Inr ((test_pred, test_true, acc), w4)"
    and m: "mr = \<lparr>hgt_start_time = get_time c (ticks w),
                   hgt_end_time = get_time c (ticks w4),
                   hgt_epoch_results = epoch_results',
                   hgt_state_dict = sd,
                   test_roc_auc = roc_auc_score c test_true test_pred,
                   test_precision = precision c test_pred test_true,
                   test_llm_acc_dict = acc\<rparr>"
    and w': "w' = w4\<lparr>training := False, ticks := ticks w4 + 1\<rparr>"
    by (auto simp: train_def Let_def ebind_eq_Inr llm_relevancy_loss_weight_def)
  from q l e t m w' d that[of eval_qa_dataset train_loader w2 test_pred test_true w4]
  show thesis by simp
qed

lemmas ex_train_defs =
  train_def train_epoch_def train_batch_def evaluate_def evaluate_results_def
  py_round_float_def float_of_nat_examples float_mul_examples py_round_def eval_batch_def
  ex_split_loaders_def ex_collab_def ex_batch_def ex_world_def ex_row_def ex_subgraphs_def
  ex_feedback_high_def ex_feedback_low_def ex_model_result_def ex_trained_world_def
  sample_negatives_def draw_neg_sample_indices_eq view1_if_scalar_def upt_rec
  process_question_def accumulate_batch_averages_def floored_average_eq no_questions_def
  accumulate_def iloc_def correct_answer_map_def make_prompt_def
  store_results_def empty_eval_acc_def empty_epoch_acc_def torch_cat_def named_parameters_def
  total_loss_def llm_relevancy_loss_weight_def write_params_def state_dict_of_def deepcopy_def
  np_mean_def round_ndigits_def trunc_def

lemma ex_train_high:
  "train ex_collab ex_split_loaders [''validation'' \<mapsto> [ex_row]] Map.empty
     [0 \<mapsto> ex_feedback_high] ex_subgraphs 1 (1 / 100) (3 / 10) ex_world =
   Inr (ex_model_result, ex_trained_world)"
  by (simp add: ex_train_defs)

lemma ex_train_low:
  "\<exists>mr w'. train ex_collab ex_split_loaders [''validation'' \<mapsto> [ex_row]] Map.empty
     [0 \<mapsto> ex_feedback_low] ex_subgraphs 1 (1 / 100) (3 / 10) ex_world = Inr (mr, w')
   \<and> test_llm_acc_dict mr = \<lparr>vanilla_accuracy = 0, context_accuracy = 1\<rparr>"
  by (simp add: ex_train_defs)

lemma ex_train_batch_again:
  "efold (train_batch ex_collab Map.empty (3 / 10) (7 / 10)) [ex_batch]
     (empty_epoch_acc, ex_trained_world) =
   Inr (\<lparr>pos_y_true_tensors = [Vec [1]], neg_y_true_tensors = [Vec [0, 0]],
         pos_y_pred_tensors = [Vec [9 / 10]], neg_y_pred_tensors = [Vec [1 / 5, 1 / 10]],
         train_losses = [17 / 10]\<rparr>,
        ex_trained_world\<lparr>heap := [3, 4, 2, 3], draws := 4\<rparr>)"
  by (simp add: ex_train_defs)

section \<open>Weighted dual-task loss\<close>

text \<open>
  Claim C2. The training loop weighs the two losses of every batch with \<open>w\<close> and
  \<open>1 - w\<close>, for the configured link-prediction weight \<open>w\<close>: the two weights sum to one
  for every \<open>w\<close>; for \<open>w = 0.3\<close> and losses \<open>L1\<close>, \<open>L2\<close> the total is
  \<open>0.3 * L1 + 0.7 * L2\<close>; in every run of \<^verbatim>\<open>train\<close> that returns, each epoch result
  carries the epoch's number and the rounded mean of one loss per batch of the train loader,
  and each of these losses is \<open>w * link_prediction_loss + (1 - w) * llm_relevancy_loss\<close>
  for the link-prediction loss and the relevancy loss computed on that batch (from a forward
  pass of the model and the negatives sampled for it); and a batch step whose sampler returns
  appends the weighted sum of its two losses to the losses of the epoch. Python floats are
  idealised as real numbers.
\<close>

theorem training_total_loss_weighted_sum:
  "link_prediction_loss_weight + llm_relevancy_loss_weight link_prediction_loss_weight = 1
   \<and> total_loss (3 / 10) (llm_relevancy_loss_weight (3 / 10)) L1 L2 = 3 / 10 * L1 + 7 / 10 * L2
   \<and> (\<forall>mr w'.
        train c split_loaders qa_dataset train_llm_feedbacks_dict val_llm_feedbacks_dict
          question_to_subgraphs_mapping num_epochs lr link_prediction_loss_weight w =
        Inr (mr, w') \<longrightarrow>
        (\<exists>train_loader. split_loaders ''train'' = Some train_loader \<and>
           list_all2
             (\<lambda>epoch_num' er. hgt_epoch_num er = epoch_num' \<and>
                (\<exists>ls. hgt_mean_train_loss er = round_ndigits (np_mean ls) 4 \<and>
                   list_all2
                     (\<lambda>b l. \<exists>ps m k pos_train_pred neg_train_pred z_dict s.
                          hgt_forward c ps m b = (pos_train_pred, neg_train_pred, z_dict)
                        \<and> sample_negatives (randperm c k) b neg_train_pred = Inr s
                        \<and> l = link_prediction_loss_weight *
                                 compute_link_prediction_loss c pos_train_pred
                                   (neg_pred_sampled s) (pos_y s) (neg_y s)
                              + (1 - link_prediction_loss_weight) *
                                 compute_llm_relevancy_loss c b z_dict train_llm_feedbacks_dict)
                     train_loader ls))
             [1 .. num_epochs] (hgt_epoch_results mr)))
   \<and> (\<forall>pos_train_pred neg_train_pred z_dict s.
        hgt_forward c (named_parameters st) (training st) b =
          (pos_train_pred, neg_train_pred, z_dict) \<and>
        sample_negatives (randperm c (draws st)) b neg_train_pred = Inr s \<longrightarrow>
        (\<exists>acc' st'.
           train_batch c train_llm_feedbacks_dict link_prediction_loss_weight
             llm_relevancy_loss_weight' b (acc, st) = Inr (acc', st')
         \<and> train_losses acc' = train_losses acc @
             [link_prediction_loss_weight *
                compute_link_prediction_loss c pos_train_pred (neg_pred_sampled s)
                  (pos_y s) (neg_y s)
              + llm_relevancy_loss_weight' *
                compute_llm_relevancy_loss c b z_dict train_llm_feedbacks_dict]))"
  (is "?A \<and> ?B \<and> (\<forall>mr w'. ?T mr w' \<longrightarrow> ?Q mr) \<and> ?D")
proof (intro conjI)
  show ?A by (simp add: llm_relevancy_loss_weight_def)
  show ?B by (simp add: total_loss_def llm_relevancy_loss_weight_def)
  show ?D by (simp add: train_batch_def total_loss_def Let_def split: prod.splits)
  show "\<forall>mr w'. ?T mr w' \<longrightarrow> ?Q mr"
  proof (intro allI impI)
    fix mr w'
    assume "?T mr w'"
    then obtain eval_qa_dataset train_loader w2 where
      l: "split_loaders ''train'' = Some train_loader" and
      e: "efold (train_epoch c split_loaders train_loader eval_qa_dataset
              train_llm_feedbacks_dict val_llm_feedbacks_dict
              question_to_subgraphs_mapping link_prediction_loss_weight
              (1 - link_prediction_loss_weight))
           [1 .. num_epochs]
           ([], w\<lparr>training := True, opt_state := make_optimizer c lr, ticks := ticks w + 1\<rparr>) =
         Inr (hgt_epoch_results mr, w2)"
      by (rule train_eq_Inr)
    let ?R = "\<lambda>epoch_num' er. hgt_epoch_num er = epoch_num' \<and>
                (\<exists>ls. hgt_mean_train_loss er = round_ndigits (np_mean ls) 4 \<and>
                   list_all2
                     (\<lambda>b l. \<exists>ps m k pos_train_pred neg_train_pred z_dict s.
                          hgt_forward c ps m b = (pos_train_pred, neg_train_pred, z_dict)
                        \<and> sample_negatives (randperm c k) b neg_train_pred = Inr s
                        \<and> l = link_prediction_loss_weight *
                                 compute_link_prediction_loss c pos_train_pred
                                   (neg_pred_sampled s) (pos_y s) (neg_y s)
                              + (1 - link_prediction_loss_weight) *
                                 compute_llm_relevancy_loss c b z_dict train_llm_feedbacks_dict)
                     train_loader ls)"
    have "\<exists>ys. id (hgt_epoch_results mr) = id [] @ ys \<and> list_all2 ?R [1 .. num_epochs] ys"
    proof (rule efold_appends[where g = id and R = ?R, OF _ e])
      fix x a wa a' wa'
      assume "train_epoch c split_loaders train_loader eval_qa_dataset
              train_llm_feedbacks_dict val_llm_feedbacks_dict
              question_to_subgraphs_mapping link_prediction_loss_weight
              (1 - link_prediction_loss_weight) x (a, wa) = Inr (a', wa')"
      from train_epoch_result[OF this]
      show "\<exists>y. id a' = id a @ [y] \<and> ?R x y" by simp
    qed
    then have "list_all2 ?R [1 .. num_epochs] (hgt_epoch_results mr)" by simp
    with l have "split_loaders ''train'' = Some train_loader \<and>
                 list_all2 ?R [1 .. num_epochs] (hgt_epoch_results mr)" ..
    then show "?Q mr" by (rule exI)
  qed
qed

theorem training_total_loss_weighted_sum_witness:
  "train ex_collab ex_split_loaders [''validation'' \<mapsto> [ex_row]] Map.empty
     [0 \<mapsto> ex_feedback_high] ex_subgraphs 1 (1 / 100) (3 / 10) ex_world =
   Inr (ex_model_result, ex_trained_world)
   \<and> (\<exists>train_loader. ex_split_loaders ''train'' = Some train_loader \<and>
        list_all2
          (\<lambda>epoch_num' er. hgt_epoch_num er = epoch_num' \<and>
             (\<exists>ls. hgt_mean_train_loss er = round_ndigits (np_mean ls) 4 \<and>
                list_all2
                  (\<lambda>b l. \<exists>ps m k pos_train_pred neg_train_pred z_dict s.
                       hgt_forward ex_collab ps m b = (pos_train_pred, neg_train_pred, z_dict)
                     \<and> sample_negatives (randperm ex_collab k) b neg_train_pred = Inr s
                     \<and> l = 3 / 10 *
                              compute_link_prediction_loss ex_collab pos_train_pred
                                (neg_pred_sampled s) (pos_y s) (neg_y s)
                           + (1 - 3 / 10) *
                              compute_llm_relevancy_loss ex_collab b z_dict Map.empty)
                  train_loader ls))
          [1 .. 1] (hgt_epoch_results ex_model_result))
   \<and> map hgt_mean_train_loss (hgt_epoch_results ex_model_result) =
       [round_ndigits (np_mean [3 / 10 * 1 + (1 - 3 / 10) * 2]) 4]
   \<and> hgt_forward ex_collab (named_parameters ex_world) (training ex_world) ex_batch =
       (Vec [9 / 10], Vec [0, 1 / 10, 1 / 5], ())
   \<and> sample_negatives (randperm ex_collab (draws ex_world)) ex_batch (Vec [0, 1 / 10, 1 / 5]) =
       Inr \<lparr>pos_y = Vec [1], neg_sample_indices = [2, 1],
            neg_pred_sampled = Vec [1 / 5, 1 / 10], neg_y = Vec [0, 0]\<rparr>
   \<and> (\<exists>acc' st'.
        train_batch ex_collab Map.empty (3 / 10) (7 / 10) ex_batch
          (empty_epoch_acc, ex_world) = Inr (acc', st')
      \<and> train_losses acc' = [17 / 10])"
  (is "?A \<and> ?B \<and> ?C \<and> ?D \<and> ?E \<and> ?F")
proof -
  note t = training_total_loss_weighted_sum
             [where c = ex_collab and split_loaders = ex_split_loaders
                and qa_dataset = "[''validation'' \<mapsto> [ex_row]]"
                and train_llm_feedbacks_dict = Map.empty
                and val_llm_feedbacks_dict = "[0 \<mapsto> ex_feedback_high]"
                and question_to_subgraphs_mapping = ex_subgraphs and num_epochs = 1
                and lr = "1 / 100" and link_prediction_loss_weight = "3 / 10" and w = ex_world
                and st = ex_world and b = ex_batch and llm_relevancy_loss_weight' = "7 / 10"
                and acc = empty_epoch_acc and ?L1.0 = 0 and ?L2.0 = 0]
  have A: ?A by (rule ex_train_high)
  have B: ?B
    using t[THEN conjunct2, THEN conjunct2, THEN conjunct1, THEN spec, THEN spec, THEN mp, OF A] .
  have C: ?C by (simp add: ex_model_result_def round_ndigits_def np_mean_def py_round_def)
  have D: ?D by (simp add: ex_collab_def ex_batch_def upt_rec)
  have E: ?E
    by (simp add: sample_negatives_def draw_neg_sample_indices_eq ex_batch_def ex_collab_def
          view1_if_scalar_def upt_rec ex_world_def)
  from t[THEN conjunct2, THEN conjunct2, THEN conjunct2, THEN spec, THEN spec, THEN spec,
         THEN spec, THEN mp, OF conjI, OF D E]
  have F: ?F by (simp add: ex_collab_def empty_epoch_acc_def)
  from A B C D E F show ?thesis by (intro conjI)
qed

section \<open>Feedback mapping of the final test evaluation\<close>

text \<open>
  Claim C10. Every run of \<^verbatim>\<open>train\<close> that returns has run the epochs on the train
  loader and then evaluated the \<^verbatim>\<open>test\<close> split with the \<^emph>\<open>validation\<close> questions and
  the \<^emph>\<open>validation\<close> feedback mapping \<^verbatim>\<open>val_llm_feedbacks_dict\<close> (line 182); the
  \<^verbatim>\<open>test_llm_acc_dict\<close> of the result is the accuracy dict this evaluation returns. In
  the example run the dict changes with the validation feedback alone.
\<close>

theorem test_evaluation_uses_validation_feedback:
  assumes "train c split_loaders qa_dataset train_llm_feedbacks_dict val_llm_feedbacks_dict
             question_to_subgraphs_mapping num_epochs lr link_prediction_loss_weight w =
           Inr (mr, w')"
  shows "\<exists>eval_qa_dataset train_loader w2 test_pred test_true w4.
           qa_dataset ''validation'' = Some eval_qa_dataset
         \<and> split_loaders ''train'' = Some train_loader
         \<and> efold (train_epoch c split_loaders train_loader eval_qa_dataset
                     train_llm_feedbacks_dict val_llm_feedbacks_dict
                     question_to_subgraphs_mapping link_prediction_loss_weight
                     (1 - link_prediction_loss_weight))
              [1 .. num_epochs]
              ([], w\<lparr>training := True, opt_state := make_optimizer c lr, ticks := ticks w + 1\<rparr>) =
            Inr (hgt_epoch_results mr, w2)
         \<and> evaluate c split_loaders ''test'' eval_qa_dataset val_llm_feedbacks_dict
              question_to_subgraphs_mapping 1
              (w2\<lparr>heap := snd (deepcopy (state_dict_of w2) (heap w2))\<rparr>) =
            Inr ((test_pred, test_true, test_llm_acc_dict mr), w4)
         \<and> w' = w4\<lparr>training := False, ticks := ticks w4 + 1\<rparr>"
proof -
  from assms obtain eval_qa_dataset train_loader w2 test_pred test_true w4 where
    "qa_dataset ''validation'' = Some eval_qa_dataset"
    "split_loaders ''train'' = Some train_loader"
    "efold (train_epoch c split_loaders train_loader eval_qa_dataset
              train_llm_feedbacks_dict val_llm_feedbacks_dict
              question_to_subgraphs_mapping link_prediction_loss_weight
              (1 - link_prediction_loss_weight))
       [1 .. num_epochs]
       ([], w\<lparr>training := True, opt_state := make_optimizer c lr, ticks := ticks w + 1\<rparr>) =
     Inr (hgt_epoch_results mr, w2)"
    "evaluate c split_loaders ''test'' eval_qa_dataset val_llm_feedbacks_dict
       question_to_subgraphs_mapping 1
       (w2\<lparr>heap := snd (deepcopy (state_dict_of w2) (heap w2))\<rparr>) =
     Inr ((test_pred, test_true, test_llm_acc_dict mr), w4)"
    "w' = w4\<lparr>training := False, ticks := ticks w4 + 1\<rparr>"
    by (rule train_eq_Inr)
  then show ?thesis by (intro exI conjI)
qed

theorem test_evaluation_uses_validation_feedback_witness:
  "train ex_collab ex_split_loaders [''validation'' \<mapsto> [ex_row]] Map.empty
     [0 \<mapsto> ex_feedback_high] ex_subgraphs 1 (1 / 100) (3 / 10) ex_world =
   Inr (ex_model_result, ex_trained_world)
   \<and> (\<exists>eval_qa_dataset train_loader w2 test_pred test_true w4.
           [''validation'' \<mapsto> [ex_row]] ''validation'' = Some eval_qa_dataset
         \<and> ex_split_loaders ''train'' = Some train_loader
         \<and> efold (train_epoch ex_collab ex_split_loaders train_loader eval_qa_dataset
                     Map.empty [0 \<mapsto> ex_feedback_high] ex_subgraphs (3 / 10) (1 - 3 / 10))
              [1 .. 1]
              ([], ex_world\<lparr>training := True, opt_state := make_optimizer ex_collab (1 / 100),
                            ticks := ticks ex_world + 1\<rparr>) =
            Inr (hgt_epoch_results ex_model_result, w2)
         \<and> evaluate ex_collab ex_split_loaders ''test'' eval_qa_dataset
              [0 \<mapsto> ex_feedback_high] ex_subgraphs 1
              (w2\<lparr>heap := snd (deepcopy (state_dict_of w2) (heap w2))\<rparr>) =
            Inr ((test_pred, test_true, test_llm_acc_dict ex_model_result), w4)
         \<and> ex_trained_world = w4\<lparr>training := False, ticks := ticks w4 + 1\<rparr>)
   \<and> test_llm_acc_dict ex_model_result = \<lparr>vanilla_accuracy = 1, context_accuracy = 1\<rparr>
   \<and> (\<exists>mr w'. train ex_collab ex_split_loaders [''validation'' \<mapsto> [ex_row]] Map.empty
          [0 \<mapsto> ex_feedback_low] ex_subgraphs 1 (1 / 100) (3 / 10) ex_world = Inr (mr, w')
        \<and> test_llm_acc_dict mr = \<lparr>vanilla_accuracy = 0, context_accuracy = 1\<rparr>)"
  (is "?A \<and> ?B \<and> ?C \<and> ?D")
proof -
  have A: ?A by (rule ex_train_high)
  have B: ?B by (rule test_evaluation_uses_validation_feedback[OF A])
  have C: ?C by (simp add: ex_model_result_def)
  have D: ?D by (rule ex_train_low)
  from A B C D show ?thesis by (intro conjI)
qed

section \<open>The store: what training and evaluation leave unchanged\<close>

lemma fold_update_length:
  "length (fold (\<lambda>(a, v) h'. h'[a := v]) avs h) = length h"
  by (induction avs arbitrary: h) auto

lemma fold_update_nth_other:
  "a \<notin> fst ` set avs \<Longrightarrow> fold (\<lambda>(a, v) h'. h'[a := v]) avs h ! a = h ! a"
  by (induction avs arbitrary: h) auto

lemma write_params_length: "length (write_params addrs vals h) = length h"
  by (simp add: write_params_def fold_update_length)

lemma write_params_nth_other:
  "a \<notin> set addrs \<Longrightarrow> write_params addrs vals h ! a = h ! a"
  unfolding write_params_def
  by (rule fold_update_nth_other) (auto dest: set_zip_leftD)

lemma train_batch_frame:
  assumes "train_batch c fb lw lw' b (acc, w) = Inr (acc', w')"
  shows "param_refs w' = param_refs w \<and> length (heap w') = length (heap w) \<and>
         (\<forall>a. a \<notin> snd ` set (param_refs w) \<longrightarrow> heap w' ! a = heap w ! a)"
proof -
  from assms obtain opt' vals where
    "w' = w\<lparr>heap := write_params (map snd (param_refs w)) vals (heap w),
            opt_state := opt', draws := draws w + 1\<rparr>"
    by (rule train_batch_eq_Inr)
  then show ?thesis by (simp add: write_params_length write_params_nth_other)
qed

lemma efold_train_batch_frame:
  assumes "efold (train_batch c fb lw lw') bs (acc, w) = Inr (acc', w')"
  shows "param_refs w' = param_refs w \<and> length (heap w') = length (heap w) \<and>
         (\<forall>a. a \<notin> snd ` set (param_refs w) \<longrightarrow> heap w' ! a = heap w ! a)"
proof -
  have "param_refs (snd (acc', w')) = param_refs w \<and>
        length (heap (snd (acc', w'))) = length (heap w) \<and>
        (\<forall>a. a \<notin> snd ` set (param_refs w) \<longrightarrow> heap (snd (acc', w')) ! a = heap w ! a)"
  proof (rule efold_invariant
           [where P = "\<lambda>s. param_refs (snd s) = param_refs w \<and>
                            length (heap (snd s)) = length (heap w) \<and>
                            (\<forall>a. a \<notin> snd ` set (param_refs w) \<longrightarrow>
                                 heap (snd s) ! a = heap w ! a)", OF _ _ assms])
    fix b s s'
    assume p: "param_refs (snd s) = param_refs w \<and>
               length (heap (snd s)) = length (heap w) \<and>
               (\<forall>a. a \<notin> snd ` set (param_refs w) \<longrightarrow> heap (snd s) ! a = heap w ! a)"
      and t: "train_batch c fb lw lw' b s = Inr s'"
    from t have "train_batch c fb lw lw' b (fst s, snd s) = Inr (fst s', snd s')" by simp
    from train_batch_frame[OF this] p
    show "param_refs (snd s') = param_refs w \<and>
          length (heap (snd s')) = length (heap w) \<and>
          (\<forall>a. a \<notin> snd ` set (param_refs w) \<longrightarrow> heap (snd s') ! a = heap w ! a)"
      by simp
  next
    show "param_refs (snd (acc, w)) = param_refs w \<and>
          length (heap (snd (acc, w))) = length (heap w) \<and>
          (\<forall>a. a \<notin> snd ` set (param_refs w) \<longrightarrow> heap (snd (acc, w)) ! a = heap w ! a)"
      by simp
  qed
  then show ?thesis by simp
qed

lemma eval_batch_frame:
  "eval_batch c fbs q2s qa j b (acc, w) = Inr (acc', w') \<Longrightarrow>
   heap w' = heap w \<and> param_refs w' = param_refs w"
  by (auto simp: eval_batch_def ebind_eq_Inr Let_def split: prod.splits)

lemma evaluate_frame:
  assumes "evaluate c sl name qa fb q2s frac' w = Inr (r, w')"
  shows "heap w' = heap w \<and> param_refs w' = param_refs w"
proof -
  from assms obtain loader where l: "sl name = Some loader"
    by (cases "sl name") (auto simp: evaluate_def)
  from assms l obtain n acc w1 where
    lp: "eval_loop (eval_batch c fb q2s qa) n 0 loader (empty_eval_acc, w\<lparr>training := False\<rparr>) =
           Inr (acc, w1)"
    and r: "evaluate_results (acc, w1) = Inr (r, w')"
    by (auto simp: evaluate_def ebind_eq_Inr)
  have "heap (snd (acc, w1)) = heap w \<and> param_refs (snd (acc, w1)) = param_refs w"
  proof (rule eval_loop_invariant
           [where P = "\<lambda>s. heap (snd s) = heap w \<and> param_refs (snd s) = param_refs w",
            OF _ _ lp])
    fix j b s s'
    assume p: "heap (snd s) = heap w \<and> param_refs (snd s) = param_refs w"
      and t: "eval_batch c fb q2s qa j b s = Inr s'"
    from t have "eval_batch c fb q2s qa j b (fst s, snd s) = Inr (fst s', snd s')" by simp
    from eval_batch_frame[OF this] p
    show "heap (snd s') = heap w \<and> param_refs (snd s') = param_refs w" by simp
  next
    show "heap (snd (empty_eval_acc, w\<lparr>training := False\<rparr>)) = heap w \<and>
          param_refs (snd (empty_eval_acc, w\<lparr>training := False\<rparr>)) = param_refs w"
      by simp
  qed
  moreover from r have "w' = w1\<lparr>training := True\<rparr>"
    by (auto simp: evaluate_results_def ebind_eq_Inr Let_def)
  ultimately show ?thesis by simp
qed

lemma train_epoch_frame:
  assumes "train_epoch c sl loader qa tfb vfb q2s lw lw' e (hist, w) = Inr (hist', w')"
  shows "param_refs w' = param_refs w \<and> length (heap w') = length (heap w) \<and>
         (\<forall>a. a \<notin> snd ` set (param_refs w) \<longrightarrow> heap w' ! a = heap w ! a)"
proof -
  from assms obtain acc w2 r w4 where
    1: "efold (train_batch c tfb lw lw') loader (empty_epoch_acc, w\<lparr>ticks := ticks w + 1\<rparr>) =
       Inr (acc, w2)"
    and 2: "evaluate c sl ''val'' qa vfb q2s 1 (w2\<lparr>ticks := ticks w2 + 1\<rparr>) = Inr (r, w4)"
    and 3: "w' = w4\<lparr>opt_state := scheduler_step c (opt_state w4)\<rparr>"
    by (rule train_epoch_eq_Inr)
  from efold_train_batch_frame[OF 1] evaluate_frame[OF 2] 3 show ?thesis by simp
qed

lemma efold_train_epoch_frame:
  assumes "efold (train_epoch c sl loader qa tfb vfb q2s lw lw') es (hist, w) = Inr (hist', w')"
  shows "param_refs w' = param_refs w \<and> length (heap w') = length (heap w) \<and>
         (\<forall>a. a \<notin> snd ` set (param_refs w) \<longrightarrow> heap w' ! a = heap w ! a)"
proof -
  have "param_refs (snd (hist', w')) = param_refs w \<and>
        length (heap (snd (hist', w'))) = length (heap w) \<and>
        (\<forall>a. a \<notin> snd ` set (param_refs w) \<longrightarrow> heap (snd (hist', w')) ! a = heap w ! a)"
  proof (rule efold_invariant
           [where P = "\<lambda>s. param_refs (snd s) = param_refs w \<and>
                            length (heap (snd s)) = length (heap w) \<and>
                            (\<forall>a. a \<notin> snd ` set (param_refs w) \<longrightarrow>
                                 heap (snd s) ! a = heap w ! a)", OF _ _ assms])
    fix e s s'
    assume p: "param_refs (snd s) = param_refs w \<and>
               length (heap (snd s)) = length (heap w) \<and>
               (\<forall>a. a \<notin> snd ` set (param_refs w) \<longrightarrow> heap (snd s) ! a = heap w ! a)"
      and t: "train_epoch c sl loader qa tfb vfb q2s lw lw' e s = Inr s'"
    from t have "train_epoch c sl loader qa tfb vfb q2s lw lw' e (fst s, snd s) =
                   Inr (fst s', snd s')" by simp
    from train_epoch_frame[OF this] p
    show "param_refs (snd s') = param_refs w \<and>
          length (heap (snd s')) = length (heap w) \<and>
          (\<forall>a. a \<notin> snd ` set (param_refs w) \<longrightarrow> heap (snd s') ! a = heap w ! a)"
      by simp
  next
    show "param_refs (snd (hist, w)) = param_refs w \<and>
          length (heap (snd (hist, w))) = length (heap w) \<and>
          (\<forall>a. a \<notin> snd ` set (param_refs w) \<longrightarrow> heap (snd (hist, w)) ! a = heap w ! a)"
      by simp
  qed
  then show ?thesis by simp
qed

lemma train_heap:
  assumes "train c sl qa tfb vfb q2s n lr lw w = Inr (mr, w')"
  obtains h where
    "length h = length (heap w)"
    "\<forall>a. a \<notin> snd ` set (param_refs w) \<longrightarrow> h ! a = heap w ! a"
    "heap w' = h @ map (\<lambda>(name, a). h ! a) (param_refs w)"
    "param_refs w' = param_refs w"
    "hgt_state_dict mr =
       zip (map fst (param_refs w)) [length h ..< length h + length (param_refs w)]"
proof -
  from assms obtain eval_qa_dataset train_loader w2 test_pred test_true w4 where
    e: "efold (train_epoch c sl train_loader eval_qa_dataset tfb vfb q2s lw (1 - lw))
          [1 .. n]
          ([], w\<lparr>training := True, opt_state := make_optimizer c lr, ticks := ticks w + 1\<rparr>) =
        Inr (hgt_epoch_results mr, w2)"
    and t: "evaluate c sl ''test'' eval_qa_dataset vfb q2s 1
              (w2\<lparr>heap := snd (deepcopy (state_dict_of w2) (heap w2))\<rparr>) =
            Inr ((test_pred, test_true, test_llm_acc_dict mr), w4)"
    and sd: "hgt_state_dict mr = fst (deepcopy (state_dict_of w2) (heap w2))"
    and w': "w' = w4\<lparr>training := False, ticks := ticks w4 + 1\<rparr>"
    by (rule train_eq_Inr)
  from efold_train_epoch_frame[OF e] have f:
    "param_refs w2 = param_refs w" "length (heap w2) = length (heap w)"
    "\<forall>a. a \<notin> snd ` set (param_refs w) \<longrightarrow> heap w2 ! a = heap w ! a"
    by simp_all
  from evaluate_frame[OF t] w' have
    "heap w' = snd (deepcopy (state_dict_of w2) (heap w2))" "param_refs w' = param_refs w2"
    by simp_all
  with f sd have
    "heap w' = heap w2 @ map (\<lambda>(name, a). heap w2 ! a) (param_refs w)"
    "param_refs w' = param_refs w"
    "hgt_state_dict mr =
       zip (map fst (param_refs w)) [length (heap w2) ..< length (heap w2) + length (param_refs w)]"
    by (simp_all add: deepcopy_def state_dict_of_def)
  with f that[of "heap w2"] show thesis by blast
qed

lemma deref_cong: "(\<forall>a \<in> snd ` set sd. h' ! a = h ! a) \<Longrightarrow> deref h' sd = deref h sd"
  by (auto simp: deref_def)

lemma deref_copy:
  "deref (h @ map (\<lambda>(name, a). h ! a) sd) (zip (map fst sd) [length h ..< length h + length sd]) =
   deref h sd"
  by (rule nth_equalityI) (simp_all add: deref_def nth_append case_prod_beta)

lemma deref_append:
  "\<forall>a \<in> snd ` set sd. a < length h \<Longrightarrow> deref (h @ h') sd = deref h sd"
  by (auto simp: deref_def nth_append)

lemma list_all2_map_eq: "list_all2 (\<lambda>x y. f y = x) xs ys \<Longrightarrow> map f ys = xs"
  by (induction rule: list_all2_induct) simp_all

section \<open>Results are not changed after construction\<close>

text \<open>
  Claim C9. An \<^verbatim>\<open>EpochResult\<close> or \<^verbatim>\<open>ModelResult\<close> is a value of a record type, and no
  function of the development changes a record it has constructed; what a result refers to
  and the program could still change is the history list and the tensors of the saved
  \<^verbatim>\<open>state_dict\<close>. For every run of \<^verbatim>\<open>train\<close> that returns, from a world whose
  parameters are in the store: the history has one result per epoch, in order, and an epoch
  only appends its result to the history it finds; the saved \<^verbatim>\<open>state_dict\<close> has the names
  of the model's parameters, refers to none of the tensors the model refers to, and holds the
  values the parameters have when \<^verbatim>\<open>train\<close> returns; and no later training step,
  evaluation, training run or change of mode, by any collaborators and on any data, changes
  the values it holds.
\<close>

theorem model_result_snapshot_is_value_copy:
  assumes "train c split_loaders qa_dataset train_llm_feedbacks_dict val_llm_feedbacks_dict
             question_to_subgraphs_mapping num_epochs lr link_prediction_loss_weight w =
           Inr (mr, w')"
    and "\<forall>a \<in> snd ` set (param_refs w). a < length (heap w)"
  shows "map hgt_epoch_num (hgt_epoch_results mr) = [1 .. num_epochs]
     \<and> (\<forall>epoch_results' wa epoch_results'' wb.
          train_epoch c_e split_loaders_e train_loader_e eval_qa_dataset_e train_fb_e val_fb_e
            q2s_e lw_e lw_e' epoch_num' (epoch_results', wa) = Inr (epoch_results'', wb) \<longrightarrow>
          (\<exists>epoch_result. epoch_results'' = epoch_results' @ [epoch_result]))
     \<and> map fst (hgt_state_dict mr) = map fst (param_refs w')
     \<and> snd ` set (hgt_state_dict mr) \<inter> snd ` set (param_refs w') = {}
     \<and> deref (heap w') (hgt_state_dict mr) = named_parameters w'
     \<and> (\<forall>acc acc' w''.
          efold (train_batch c_b train_fb_b lw_b lw_b') batches (acc, w') = Inr (acc', w'') \<longrightarrow>
          deref (heap w'') (hgt_state_dict mr) = deref (heap w') (hgt_state_dict mr))
     \<and> (\<forall>r w''.
          evaluate c_v split_loaders_v split_name_v qa_dataset_v fb_v q2s_v frac_v w' =
            Inr (r, w'') \<longrightarrow>
          deref (heap w'') (hgt_state_dict mr) = deref (heap w') (hgt_state_dict mr))
     \<and> (\<forall>mr' w''.
          train c_t split_loaders_t qa_dataset_t train_fb_t val_fb_t q2s_t num_epochs_t lr_t lw_t w' =
            Inr (mr', w'') \<longrightarrow>
          deref (heap w'') (hgt_state_dict mr) = deref (heap w') (hgt_state_dict mr))
     \<and> (\<forall>mode. deref (heap (w'\<lparr>training := mode\<rparr>)) (hgt_state_dict mr) =
                deref (heap w') (hgt_state_dict mr))"
  (is "?A \<and> ?B \<and> ?C \<and> ?D \<and> ?E \<and> ?F \<and> ?G \<and> ?H \<and> ?I")
proof -
  from assms(1) obtain h where
    h: "length h = length (heap w)"
    and hw': "heap w' = h @ map (\<lambda>(name, a). h ! a) (param_refs w)"
    and pw': "param_refs w' = param_refs w"
    and sd: "hgt_state_dict mr =
       zip (map fst (param_refs w)) [length h ..< length h + length (param_refs w)]"
    by (rule train_heap)
  from assms(2) h have wf: "\<forall>a \<in> snd ` set (param_refs w). a < length h" by simp
  have addr: "length h \<le> a \<and> a < length (heap w')" if "a \<in> snd ` set (hgt_state_dict mr)" for a
  proof -
    from that sd have "a \<in> set [length h ..< length h + length (param_refs w)]"
      by (auto dest: set_zip_rightD)
    with hw' show ?thesis by simp
  qed
  have fresh: "a \<notin> snd ` set (param_refs w')" if "a \<in> snd ` set (hgt_state_dict mr)" for a
    using addr[OF that] wf pw' by auto
  have A: ?A
  proof -
    from assms(1) obtain eval_qa_dataset train_loader w2 where
      e: "efold (train_epoch c split_loaders train_loader eval_qa_dataset
              train_llm_feedbacks_dict val_llm_feedbacks_dict
              question_to_subgraphs_mapping link_prediction_loss_weight
              (1 - link_prediction_loss_weight))
           [1 .. num_epochs]
           ([], w\<lparr>training := True, opt_state := make_optimizer c lr, ticks := ticks w + 1\<rparr>) =
         Inr (hgt_epoch_results mr, w2)"
      by (rule train_eq_Inr)
    have "\<exists>ys. id (hgt_epoch_results mr) = id [] @ ys \<and>
            list_all2 (\<lambda>x y. hgt_epoch_num y = x) [1 .. num_epochs] ys"
    proof (rule efold_appends[where g = id and R = "\<lambda>x y. hgt_epoch_num y = x", OF _ e])
      fix x a wa a' wa'
      assume "train_epoch c split_loaders train_loader eval_qa_dataset
              train_llm_feedbacks_dict val_llm_feedbacks_dict
              question_to_subgraphs_mapping link_prediction_loss_weight
              (1 - link_prediction_loss_weight) x (a, wa) = Inr (a', wa')"
      then obtain er where "a' = a @ [er]" "hgt_epoch_num er = x"
        by (rule train_epoch_eq_Inr)
      then show "\<exists>y. id a' = id a @ [y] \<and> hgt_epoch_num y = x" by simp
    qed
    then have "list_all2 (\<lambda>x y. hgt_epoch_num y = x) [1 .. num_epochs] (hgt_epoch_results mr)"
      by simp
    then show ?thesis by (rule list_all2_map_eq)
  qed
  have B: ?B
  proof (intro allI impI)
    fix epoch_results' wa epoch_results'' wb
    assume "train_epoch c_e split_loaders_e train_loader_e eval_qa_dataset_e train_fb_e val_fb_e
              q2s_e lw_e lw_e' epoch_num' (epoch_results', wa) = Inr (epoch_results'', wb)"
    then obtain er where "epoch_results'' = epoch_results' @ [er]"
      by (rule train_epoch_eq_Inr)
    then show "\<exists>epoch_result. epoch_results'' = epoch_results' @ [epoch_result]" ..
  qed
  have C: ?C using sd pw' by simp
  have D: ?D using fresh by auto
  have E: ?E
  proof -
    have "deref (heap w') (hgt_state_dict mr) = deref h (param_refs w)"
      unfolding hw' sd by (rule deref_copy)
    moreover have "named_parameters w' = deref (heap w') (param_refs w')"
      by (simp add: named_parameters_def deref_def)
    moreover have "deref (heap w') (param_refs w') = deref h (param_refs w)"
      unfolding hw' pw' using wf by (rule deref_append)
    ultimately show ?thesis by simp
  qed
  have F: ?F
  proof (intro allI impI)
    fix acc acc' w''
    assume "efold (train_batch c_b train_fb_b lw_b lw_b') batches (acc, w') = Inr (acc', w'')"
    from efold_train_batch_frame[OF this] fresh
    show "deref (heap w'') (hgt_state_dict mr) = deref (heap w') (hgt_state_dict mr)"
      by (intro deref_cong) auto
  qed
  have G: ?G
  proof (intro allI impI)
    fix r w''
    assume "evaluate c_v split_loaders_v split_name_v qa_dataset_v fb_v q2s_v frac_v w' =
              Inr (r, w'')"
    from evaluate_frame[OF this]
    show "deref (heap w'') (hgt_state_dict mr) = deref (heap w') (hgt_state_dict mr)" by simp
  qed
  have H: ?H
  proof (intro allI impI)
    fix mr' w''
    assume "train c_t split_loaders_t qa_dataset_t train_fb_t val_fb_t q2s_t num_epochs_t lr_t lw_t w' =
            Inr (mr', w'')"
    then obtain h2 where
      h2: "length h2 = length (heap w')"
      "\<forall>a. a \<notin> snd ` set (param_refs w') \<longrightarrow> h2 ! a = heap w' ! a"
      "heap w'' = h2 @ map (\<lambda>(name, a). h2 ! a) (param_refs w')"
      by (rule train_heap)
    have "heap w'' ! a = heap w' ! a" if "a \<in> snd ` set (hgt_state_dict mr)" for a
      using addr[OF that] fresh[OF that] h2 by (simp add: nth_append)
    then show "deref (heap w'') (hgt_state_dict mr) = deref (heap w') (hgt_state_dict mr)"
      by (intro deref_cong) auto
  qed
  have I: ?I by simp
  from A B C D E F G H I show ?thesis by (intro conjI)
qed

lemma ex_params_in_heap: "\<forall>a \<in> snd ` set (param_refs ex_world). a < length (heap ex_world)"
  by (simp add: ex_world_def)

theorem model_result_snapshot_is_value_copy_witness:
  "train ex_collab ex_split_loaders [''validation'' \<mapsto> [ex_row]] Map.empty
     [0 \<mapsto> ex_feedback_high] ex_subgraphs 1 (1 / 100) (3 / 10) ex_world =
   Inr (ex_model_result, ex_trained_world)
   \<and> map snd (param_refs ex_world) = [0, 1] \<and> length (heap ex_world) = 2
   \<and> efold (train_batch ex_collab Map.empty (3 / 10) (7 / 10)) [ex_batch]
       (empty_epoch_acc, ex_trained_world) =
     Inr (\<lparr>pos_y_true_tensors = [Vec [1]], neg_y_true_tensors = [Vec [0, 0]],
           pos_y_pred_tensors = [Vec [9 / 10]], neg_y_pred_tensors = [Vec [1 / 5, 1 / 10]],
           train_losses = [17 / 10]\<rparr>,
          ex_trained_world\<lparr>heap := [3, 4, 2, 3], draws := 4\<rparr>)
   \<and> deref (heap (ex_trained_world\<lparr>heap := [3, 4, 2, 3], draws := 4\<rparr>))
       (hgt_state_dict ex_model_result) =
     deref (heap ex_trained_world) (hgt_state_dict ex_model_result)
   \<and> deref (heap ex_trained_world) (hgt_state_dict ex_model_result) = [(''w'', 2), (''b'', 3)]
   \<and> named_parameters ex_trained_world = [(''w'', 2), (''b'', 3)]
   \<and> named_parameters (ex_trained_world\<lparr>heap := [3, 4, 2, 3], draws := 4\<rparr>) =
       [(''w'', 3), (''b'', 4)]
   \<and> map hgt_epoch_num (hgt_epoch_results ex_model_result) = [1 .. 1]"
  (is "?A \<and> ?B \<and> ?B' \<and> ?C \<and> ?D \<and> ?E \<and> ?F \<and> ?G \<and> ?H")
proof -
  have A: ?A by (rule ex_train_high)
  have B: ?B ?B' by (simp_all add: ex_world_def)
  have C: ?C by (rule ex_train_batch_again)
  note t = model_result_snapshot_is_value_copy
             [OF A ex_params_in_heap, where c_b = ex_collab and train_fb_b = Map.empty and lw_b = "3 / 10"
                and lw_b' = "7 / 10" and batches = "[ex_batch]"]
  have D: ?D
    using t[THEN conjunct2, THEN conjunct2, THEN conjunct2, THEN conjunct2, THEN conjunct2,
            THEN conjunct1, THEN spec, THEN spec, THEN spec, THEN mp, OF C] .
  have E: ?E by (simp add: deref_def ex_trained_world_def ex_model_result_def)
  have F: ?F by (simp add: named_parameters_def ex_trained_world_def)
  have G: ?G by (simp add: named_parameters_def ex_trained_world_def)
  have H: ?H using t[THEN conjunct1] .
  from A B C D E F G H show ?thesis by (intro conjI)
qed

end
